theory Spec2Isabelle
  imports Main "HOL-Library.Word"
begin

section \<open>PowerPlatformService: the authenticated-request layer\<close>

text \<open>
  A shallow embedding of \<^verbatim>\<open>src/PowerPlatformService.ts\<close> and of the
  \<^verbatim>\<open>query-records\<close> tool handler that calls it.

  Conventions of the embedding.
  \<^item> A JavaScript string is the list of its code units. A string the code only copies
    (names, tokens, paths, URLs, messages) is a \<open>string\<close>, whose characters are 8-bit:
    the code units covered there are those below 256. The filter expression, whose code
    units \<^verbatim>\<open>encodeURIComponent\<close> inspects, is a \<open>js_string\<close>: a list of 16-bit code
    units, surrogates included.
  \<^item> A number is an \<open>int\<close>: the numbers covered are the safe integers, of magnitude at
    most \<open>2^53 - 1\<close>, which \<^verbatim>\<open>Number::toString\<close> prints digit by digit. Fractions,
    \<^verbatim>\<open>NaN\<close>, the infinities and larger integers are outside the embedding.
  \<^item> A timestamp (\<^verbatim>\<open>Date.now()\<close>, \<^verbatim>\<open>Date.getTime()\<close>) is an \<open>int\<close> of milliseconds.
  \<^item> A rejected promise or a \<^verbatim>\<open>throw\<close> is \<open>Inl\<close> of the thrown error; a fulfilled
    promise is \<open>Inr\<close> of its value.
  \<^item> The two collaborators that reach the network, the MSAL client and axios, are
    parameters: \<open>msal\<close> answers a token request for a list of scopes, \<open>http\<close> answers
    a request. Every call made to them is recorded in a trace of \<open>net_call\<close>s.
  \<^item> The mutable fields of the class are threaded through explicitly: every method takes
    the service and returns the service it leaves behind.
  \<^item> \<^verbatim>\<open>console.error\<close> only writes to the standard error stream and is left out.
\<close>

subsection \<open>Errors\<close>

text \<open>A thrown \<^verbatim>\<open>Error\<close> object: its \<^verbatim>\<open>name\<close> and its \<^verbatim>\<open>message\<close>.\<close>

datatype js_error = JsError (err_name: string) (err_message: string)

text \<open>\<^verbatim>\<open>new Error(message)\<close>.\<close>

definition new_Error :: "string \<Rightarrow> js_error" where
  "new_Error m = JsError ''Error'' m"

text \<open>
  \<^verbatim>\<open>Error.prototype.toString\<close>, which a template literal \<^verbatim>\<open>${error}\<close> calls:
  the name alone when the message is empty, the message alone when the name is empty.
\<close>

definition error_toString :: "js_error \<Rightarrow> string" where
  "error_toString e =
     (if err_name e = [] then err_message e
      else if err_message e = [] then err_name e
      else err_name e @ '': '' @ err_message e)"

subsection \<open>Configuration and the service object\<close>

record PowerPlatformConfig =
  organizationUrl :: string
  clientId :: string
  clientSecret :: string
  tenantId :: string

text \<open>The \<^verbatim>\<open>auth\<close> block handed to \<^verbatim>\<open>ConfidentialClientApplication\<close>.\<close>

record msal_auth =
  auth_clientId :: string
  auth_clientSecret :: string
  auth_authority :: string

record PowerPlatformService =
  config :: PowerPlatformConfig
  msalClient :: msal_auth
  accessToken :: "string option"
  tokenExpirationTime :: int

text \<open>The constructor: no token, expiration time 0.\<close>

definition constructor :: "PowerPlatformConfig \<Rightarrow> PowerPlatformService" where
  "constructor cfg =
     \<lparr>config = cfg,
      msalClient = \<lparr>auth_clientId = clientId cfg,
                    auth_clientSecret = clientSecret cfg,
                    auth_authority = ''https://login.microsoftonline.com/'' @ tenantId cfg\<rparr>,
      accessToken = None,
      tokenExpirationTime = 0\<rparr>"

subsection \<open>The network collaborators\<close>

text \<open>
  What \<^verbatim>\<open>acquireTokenByClientCredential\<close> resolves to: \<open>result_accessToken\<close> is
  \<open>None\<close> when the field is missing, \<open>result_expiresOn\<close> is \<open>None\<close> for \<^verbatim>\<open>null\<close>.
\<close>

record AuthenticationResult =
  result_accessToken :: "string option"
  result_expiresOn :: "int option"

text \<open>The call either throws or returns a result, which may be \<^verbatim>\<open>null\<close>.\<close>

datatype msal_outcome = MsalThrows js_error | MsalReturns "AuthenticationResult option"

record http_request =
  req_method :: string
  req_url :: string
  req_headers :: "(string \<times> string) list"

text \<open>
  axios either rejects (transport failure, or a status outside 2xx) or resolves to a
  response, of which only \<^verbatim>\<open>data\<close> is read.
\<close>

datatype 'a http_outcome = HttpFails js_error | HttpResponds 'a

datatype net_call = AcquireToken "string list" | Axios http_request

subsection \<open>getAccessToken\<close>

text \<open>Truthiness of a \<^verbatim>\<open>string | null\<close>: \<^verbatim>\<open>null\<close> and the empty string are falsy.\<close>

fun truthy :: "string option \<Rightarrow> bool" where
  "truthy None = False"
| "truthy (Some t) = (t \<noteq> [])"

text \<open>
  Lines 34 to 39, which run before the first suspension: the cached token when there is one
  and it has not expired, \<open>None\<close> when a new token is needed.
\<close>

definition cached_token :: "PowerPlatformService \<Rightarrow> int \<Rightarrow> string option" where
  "cached_token s currentTime =
     (case accessToken s of
        None \<Rightarrow> None
      | Some t \<Rightarrow> if truthy (Some t) \<and> tokenExpirationTime s > currentTime then Some t else None)"

text \<open>
  The body of the \<^verbatim>\<open>try\<close> from the point where the MSAL call has settled (lines 43 to
  58): it throws what MSAL threw, or \<open>Failed to acquire access token\<close>, before any field
  is written; otherwise it stores the token, stores the expiration time when the result
  has one, and returns the stored token.
\<close>

definition store_result ::
  "PowerPlatformService \<Rightarrow> msal_outcome \<Rightarrow> (js_error + string) \<times> PowerPlatformService" where
  "store_result s outcome =
     (case outcome of
        MsalThrows e \<Rightarrow> (Inl e, s)
      | MsalReturns None \<Rightarrow> (Inl (new_Error ''Failed to acquire access token''), s)
      | MsalReturns (Some result) \<Rightarrow>
          (case result_accessToken result of
             None \<Rightarrow> (Inl (new_Error ''Failed to acquire access token''), s)
           | Some t \<Rightarrow>
               if \<not> truthy (Some t)
               then (Inl (new_Error ''Failed to acquire access token''), s)
               else
                 let s1 = s\<lparr>accessToken := Some t\<rparr>;
                     s2 = (case result_expiresOn result of
                             None \<Rightarrow> s1
                           | Some expiresOn \<Rightarrow>
                               s1\<lparr>tokenExpirationTime := expiresOn - (5 * 60 * 1000)\<rparr>)
                 in (Inr t, s2)))"

text \<open>
  The \<^verbatim>\<open>try\<close> with its \<^verbatim>\<open>catch\<close> (lines 41 to 62): whatever was thrown is replaced
  by \<open>Authentication failed\<close>.
\<close>

definition complete_exchange ::
  "PowerPlatformService \<Rightarrow> msal_outcome \<Rightarrow> (js_error + string) \<times> PowerPlatformService" where
  "complete_exchange s outcome =
     (case store_result s outcome of
        (Inl error, s') \<Rightarrow> (Inl (new_Error ''Authentication failed''), s')
      | (Inr token, s') \<Rightarrow> (Inr token, s'))"

text \<open>The scopes of the token request.\<close>

definition token_scopes :: "PowerPlatformService \<Rightarrow> string list" where
  "token_scopes s = [organizationUrl (config s) @ ''/.default'']"

text \<open>
  The rest of \<^verbatim>\<open>getAccessToken\<close> once lines 34 to 39 have decided: the cached token
  is returned with no call, otherwise the token request is made and the \<^verbatim>\<open>try\<close>
  completes on the service as it is when the request settles.
\<close>

definition finish_getAccessToken ::
  "PowerPlatformService \<Rightarrow> string option \<Rightarrow> (string list \<Rightarrow> msal_outcome) \<Rightarrow>
     (js_error + string) \<times> PowerPlatformService \<times> net_call list" where
  "finish_getAccessToken s decision msal =
     (case decision of
        Some t \<Rightarrow> (Inr t, s, [])
      | None \<Rightarrow>
          (case complete_exchange s (msal (token_scopes s)) of
             (r, s') \<Rightarrow> (r, s', [AcquireToken (token_scopes s)])))"

text \<open>
  \<^verbatim>\<open>getAccessToken\<close> called on its own: nothing runs between the decision and the
  completion, so both see the same service.
\<close>

definition getAccessToken ::
  "PowerPlatformService \<Rightarrow> int \<Rightarrow> (string list \<Rightarrow> msal_outcome) \<Rightarrow>
     (js_error + string) \<times> PowerPlatformService \<times> net_call list" where
  "getAccessToken s currentTime msal =
     finish_getAccessToken s (cached_token s currentTime) msal"

subsection \<open>makeRequest\<close>

text \<open>The request of lines 72 to 81 for a token and an endpoint.\<close>

definition build_request :: "PowerPlatformService \<Rightarrow> string \<Rightarrow> string \<Rightarrow> http_request" where
  "build_request s token endpoint =
     \<lparr>req_method = ''GET'',
      req_url = organizationUrl (config s) @ ''/'' @ endpoint,
      req_headers =
        [(''Authorization'', ''Bearer '' @ token),
         (''Accept'', ''application/json''),
         (''OData-MaxVersion'', ''4.0''),
         (''OData-Version'', ''4.0'')]\<rparr>"

text \<open>
  The part of \<^verbatim>\<open>makeRequest\<close> that follows \<^verbatim>\<open>await this.getAccessToken()\<close>: the
  \<^verbatim>\<open>catch\<close> wraps whatever the \<^verbatim>\<open>try\<close> threw, the failure of
  \<^verbatim>\<open>getAccessToken\<close> included.
\<close>

definition send_request ::
  "PowerPlatformService \<Rightarrow> string \<Rightarrow> (http_request \<Rightarrow> 'a http_outcome) \<Rightarrow>
     (js_error + string) \<Rightarrow> (js_error + 'a) \<times> net_call list" where
  "send_request s endpoint http tok =
     (case tok of
        Inl error \<Rightarrow>
          (Inl (new_Error (''PowerPlatform API request failed: '' @ error_toString error)), [])
      | Inr token \<Rightarrow>
          (case http (build_request s token endpoint) of
             HttpFails error \<Rightarrow>
               (Inl (new_Error (''PowerPlatform API request failed: '' @ error_toString error)),
                [Axios (build_request s token endpoint)])
           | HttpResponds data \<Rightarrow> (Inr data, [Axios (build_request s token endpoint)])))"

definition makeRequest ::
  "PowerPlatformService \<Rightarrow> int \<Rightarrow> (string list \<Rightarrow> msal_outcome) \<Rightarrow>
     (http_request \<Rightarrow> 'a http_outcome) \<Rightarrow> string \<Rightarrow>
     (js_error + 'a) \<times> PowerPlatformService \<times> net_call list" where
  "makeRequest s currentTime msal http endpoint =
     (case getAccessToken s currentTime msal of
        (tok, s', calls) \<Rightarrow>
          (case send_request s' endpoint http tok of
             (r, calls') \<Rightarrow> (r, s', calls @ calls')))"

subsection \<open>The operations\<close>

definition getEntityMetadata ::
  "PowerPlatformService \<Rightarrow> int \<Rightarrow> (string list \<Rightarrow> msal_outcome) \<Rightarrow>
     (http_request \<Rightarrow> 'a http_outcome) \<Rightarrow> string \<Rightarrow>
     (js_error + 'a) \<times> PowerPlatformService \<times> net_call list" where
  "getEntityMetadata s currentTime msal http entityName =
     makeRequest s currentTime msal http
       (''api/data/v9.2/EntityDefinitions(LogicalName='' @ [CHR 0x27] @ entityName @
        [CHR 0x27] @ '')'')"

definition getEntityAttributes ::
  "PowerPlatformService \<Rightarrow> int \<Rightarrow> (string list \<Rightarrow> msal_outcome) \<Rightarrow>
     (http_request \<Rightarrow> 'a http_outcome) \<Rightarrow> string \<Rightarrow>
     (js_error + 'a) \<times> PowerPlatformService \<times> net_call list" where
  "getEntityAttributes s currentTime msal http entityName =
     makeRequest s currentTime msal http
       (''api/data/v9.2/EntityDefinitions(LogicalName='' @ [CHR 0x27] @ entityName @
        [CHR 0x27] @ '')/Attributes'')"

definition getEntityAttribute ::
  "PowerPlatformService \<Rightarrow> int \<Rightarrow> (string list \<Rightarrow> msal_outcome) \<Rightarrow>
     (http_request \<Rightarrow> 'a http_outcome) \<Rightarrow> string \<Rightarrow> string \<Rightarrow>
     (js_error + 'a) \<times> PowerPlatformService \<times> net_call list" where
  "getEntityAttribute s currentTime msal http entityName attributeName =
     makeRequest s currentTime msal http
       (''api/data/v9.2/EntityDefinitions(LogicalName='' @ [CHR 0x27] @ entityName @
        [CHR 0x27] @ '')/Attributes(LogicalName='' @ [CHR 0x27] @ attributeName @
        [CHR 0x27] @ '')'')"

definition getEntityOneToManyRelationships ::
  "PowerPlatformService \<Rightarrow> int \<Rightarrow> (string list \<Rightarrow> msal_outcome) \<Rightarrow>
     (http_request \<Rightarrow> 'a http_outcome) \<Rightarrow> string \<Rightarrow>
     (js_error + 'a) \<times> PowerPlatformService \<times> net_call list" where
  "getEntityOneToManyRelationships s currentTime msal http entityName =
     makeRequest s currentTime msal http
       (''api/data/v9.2/EntityDefinitions(LogicalName='' @ [CHR 0x27] @ entityName @
        [CHR 0x27] @ '')/OneToManyRelationships'')"

definition getEntityManyToManyRelationships ::
  "PowerPlatformService \<Rightarrow> int \<Rightarrow> (string list \<Rightarrow> msal_outcome) \<Rightarrow>
     (http_request \<Rightarrow> 'a http_outcome) \<Rightarrow> string \<Rightarrow>
     (js_error + 'a) \<times> PowerPlatformService \<times> net_call list" where
  "getEntityManyToManyRelationships s currentTime msal http entityName =
     makeRequest s currentTime msal http
       (''api/data/v9.2/EntityDefinitions(LogicalName='' @ [CHR 0x27] @ entityName @
        [CHR 0x27] @ '')/ManyToManyRelationships'')"

definition getGlobalOptionSet ::
  "PowerPlatformService \<Rightarrow> int \<Rightarrow> (string list \<Rightarrow> msal_outcome) \<Rightarrow>
     (http_request \<Rightarrow> 'a http_outcome) \<Rightarrow> string \<Rightarrow>
     (js_error + 'a) \<times> PowerPlatformService \<times> net_call list" where
  "getGlobalOptionSet s currentTime msal http optionSetName =
     makeRequest s currentTime msal http
       (''api/data/v9.2/GlobalOptionSetDefinitions(Name='' @ [CHR 0x27] @ optionSetName @
        [CHR 0x27] @ '')'')"

definition getRecord ::
  "PowerPlatformService \<Rightarrow> int \<Rightarrow> (string list \<Rightarrow> msal_outcome) \<Rightarrow>
     (http_request \<Rightarrow> 'a http_outcome) \<Rightarrow> string \<Rightarrow> string \<Rightarrow>
     (js_error + 'a) \<times> PowerPlatformService \<times> net_call list" where
  "getRecord s currentTime msal http entityNamePlural recordId =
     makeRequest s currentTime msal http
       (''api/data/v9.2/'' @ entityNamePlural @ ''('' @ recordId @ '')'')"

subsection \<open>queryRecords\<close>

text \<open>
  The characters \<^verbatim>\<open>encodeURIComponent\<close> leaves alone: letters, digits and
  \<^verbatim>\<open>- _ . ! ~ * ' ( )\<close>.
\<close>

definition uriUnreserved :: "char \<Rightarrow> bool" where
  "uriUnreserved c \<longleftrightarrow>
     c \<in> set (''ABCDEFGHIJKLMNOPQRSTUVWXYZabcdefghijklmnopqrstuvwxyz0123456789-_.!~*()'' @
              [CHR 0x27])"

definition hex_digit :: "nat \<Rightarrow> char" where
  "hex_digit d = (if d < 10 then char_of (48 + d) else char_of (55 + d))"

text \<open>One octet as \<^verbatim>\<open>%XX\<close>, in upper-case hexadecimal.\<close>

definition percent :: "nat \<Rightarrow> string" where
  "percent b = [CHR ''%'', hex_digit (b div 16), hex_digit (b mod 16)]"

text \<open>A JavaScript string as the list of its 16-bit code units.\<close>

type_synonym js_string = "16 word list"

text \<open>A string of 8-bit characters as a JavaScript string.\<close>

definition widen :: "string \<Rightarrow> js_string" where
  "widen s = map (\<lambda>c. of_nat (of_char c)) s"

definition unreserved_unit :: "16 word \<Rightarrow> bool" where
  "unreserved_unit u \<longleftrightarrow> unat u < 128 \<and> uriUnreserved (char_of (unat u))"

definition leading_surrogate :: "16 word \<Rightarrow> bool" where
  "leading_surrogate u \<longleftrightarrow> 0xD800 \<le> unat u \<and> unat u \<le> 0xDBFF"

definition trailing_surrogate :: "16 word \<Rightarrow> bool" where
  "trailing_surrogate u \<longleftrightarrow> 0xDC00 \<le> unat u \<and> unat u \<le> 0xDFFF"

text \<open>The code point of a surrogate pair.\<close>

definition surrogate_pair :: "16 word \<Rightarrow> 16 word \<Rightarrow> nat" where
  "surrogate_pair lead trail = (unat lead - 0xD800) * 0x400 + (unat trail - 0xDC00) + 0x10000"

text \<open>The octets of the UTF-8 encoding of a code point.\<close>

definition utf8 :: "nat \<Rightarrow> nat list" where
  "utf8 cp =
     (if cp < 0x80 then [cp]
      else if cp < 0x800 then [0xC0 + cp div 64, 0x80 + cp mod 64]
      else if cp < 0x10000
        then [0xE0 + cp div 4096, 0x80 + (cp div 64) mod 64, 0x80 + cp mod 64]
      else [0xF0 + cp div 262144, 0x80 + (cp div 4096) mod 64, 0x80 + (cp div 64) mod 64,
            0x80 + cp mod 64])"

text \<open>
  The error \<^verbatim>\<open>encodeURIComponent\<close> throws on a lone surrogate. Its name is fixed by
  the language; the message is the one Node.js gives.
\<close>

definition URIError :: js_error where
  "URIError = JsError ''URIError'' ''URI malformed''"

text \<open>Output produced before the rest of the string is encoded: lost when the rest throws.\<close>

definition prepend :: "string \<Rightarrow> js_error + string \<Rightarrow> js_error + string" where
  "prepend out r = (case r of Inl e \<Rightarrow> Inl e | Inr rest \<Rightarrow> Inr (out @ rest))"

text \<open>
  \<^verbatim>\<open>encodeURIComponent\<close>, unit by unit from the left: an unreserved code unit is
  copied; a leading surrogate followed by a trailing one is the code point of the pair; any
  other surrogate throws \<^verbatim>\<open>URIError\<close>; every other code unit is its own code point.
  A code point is written as the escaped octets of its UTF-8 encoding.
\<close>

fun encodeURIComponent :: "js_string \<Rightarrow> js_error + string" where
  "encodeURIComponent [] = Inr []"
| "encodeURIComponent (u # us) =
     (if unreserved_unit u then prepend [char_of (unat u)] (encodeURIComponent us)
      else if leading_surrogate u then
        (case us of
           [] \<Rightarrow> Inl URIError
         | v # vs \<Rightarrow>
             if trailing_surrogate v
             then prepend (concat (map percent (utf8 (surrogate_pair u v)))) (encodeURIComponent vs)
             else Inl URIError)
      else if trailing_surrogate u then Inl URIError
      else prepend (concat (map percent (utf8 (unat u)))) (encodeURIComponent us))"

definition digit_char :: "nat \<Rightarrow> char" where
  "digit_char d = char_of (48 + d)"

fun decimal :: "nat \<Rightarrow> string" where
  "decimal n = (if n < 10 then [digit_char n] else decimal (n div 10) @ [digit_char (n mod 10)])"

declare decimal.simps [simp del]

text \<open>
  \<^verbatim>\<open>Number::toString\<close> on a safe integer, where JavaScript prints exactly the decimal
  digits. On other numbers the builtin prints something else
  (\<^verbatim>\<open>9223372036854776000\<close> for \<open>2^63\<close>, \<^verbatim>\<open>1e+21\<close> for \<open>10^21\<close>), which this
  function does not follow: \<open>safe_integer\<close> is the bound inside which it is the builtin.
\<close>

definition Number_toString :: "int \<Rightarrow> string" where
  "Number_toString n = (if n < 0 then ''-'' @ decimal (nat (- n)) else decimal (nat n))"


text \<open>
  The parameter \<^verbatim>\<open>maxRecords: number = 50\<close>: \<open>None\<close> is an omitted argument. The
  template literal of line 174 is evaluated before \<^verbatim>\<open>makeRequest\<close> is called, outside
  its \<^verbatim>\<open>try\<close>: when \<^verbatim>\<open>encodeURIComponent\<close> throws, the promise is rejected with
  that error, nothing is requested and the service is untouched.
\<close>

definition queryRecords ::
  "PowerPlatformService \<Rightarrow> int \<Rightarrow> (string list \<Rightarrow> msal_outcome) \<Rightarrow>
     (http_request \<Rightarrow> 'a http_outcome) \<Rightarrow> string \<Rightarrow> js_string \<Rightarrow> int option \<Rightarrow>
     (js_error + 'a) \<times> PowerPlatformService \<times> net_call list" where
  "queryRecords s currentTime msal http entityNamePlural filter_expr maxRecords =
     (let maxRecords' = (case maxRecords of None \<Rightarrow> 50 | Some n \<Rightarrow> n) in
      case encodeURIComponent filter_expr of
        Inl error \<Rightarrow> (Inl error, s, [])
      | Inr encoded \<Rightarrow>
          makeRequest s currentTime msal http
            (''api/data/v9.2/'' @ entityNamePlural @ ''?$filter='' @ encoded @
             ''&$top='' @ Number_toString maxRecords'))"

subsection \<open>getEntityRelationships\<close>

record 'a relationships =
  oneToMany :: 'a
  manyToMany :: 'a

text \<open>
  \<^verbatim>\<open>Promise.all\<close> of two promises: fulfilled with both values when both are fulfilled,
  rejected with the reason of the promise that rejects first otherwise.
  \<open>second_settles_first\<close> tells which of the two settles first.
\<close>

definition Promise_all ::
  "bool \<Rightarrow> js_error + 'a \<Rightarrow> js_error + 'b \<Rightarrow> js_error + 'a \<times> 'b" where
  "Promise_all second_settles_first p q =
     (case p of
        Inr a \<Rightarrow> (case q of Inr b \<Rightarrow> Inr (a, b) | Inl e2 \<Rightarrow> Inl e2)
      | Inl e1 \<Rightarrow>
          (case q of
             Inr b \<Rightarrow> Inl e1
           | Inl e2 \<Rightarrow> Inl (if second_settles_first then e2 else e1)))"

text \<open>
  Lines 136 to 144 once both requests have settled: the awaited \<^verbatim>\<open>Promise.all\<close>
  throws its rejection, or its two values become the returned object.
\<close>

definition relationships_of ::
  "bool \<Rightarrow> js_error + 'a \<Rightarrow> js_error + 'a \<Rightarrow> js_error + 'a relationships" where
  "relationships_of second_settles_first r1 r2 =
     (case Promise_all second_settles_first r1 r2 of
        Inl error \<Rightarrow> Inl error
      | Inr (a, b) \<Rightarrow> Inr \<lparr>oneToMany = a, manyToMany = b\<rparr>)"

text \<open>
  The two requests are started one after the other before anything is awaited. Each runs
  up to its first suspension, so each takes the decision of lines 34 to 39 on the service
  as it is at the call (at times \<open>now1\<close> and \<open>now2\<close>); no field is written before a
  suspension. The token requests, if any, then settle in one order or the other
  (\<open>second_exchange_first\<close>), each completing on the service the other may already
  have written, and each request goes out with the token its own
  \<^verbatim>\<open>getAccessToken\<close> returned. The trace is kept per request.
\<close>

definition getEntityRelationships ::
  "PowerPlatformService \<Rightarrow> int \<Rightarrow> int \<Rightarrow> (string list \<Rightarrow> msal_outcome) \<Rightarrow>
     (string list \<Rightarrow> msal_outcome) \<Rightarrow> (http_request \<Rightarrow> 'a http_outcome) \<Rightarrow>
     bool \<Rightarrow> bool \<Rightarrow> string \<Rightarrow>
     (js_error + 'a relationships) \<times> PowerPlatformService \<times> net_call list \<times> net_call list" where
  "getEntityRelationships s now1 now2 msal1 msal2 http second_exchange_first
       second_settles_first entityName =
     (let decision1 = cached_token s now1;
          decision2 = cached_token s now2;
          (tok1, calls1, tok2, calls2, s') =
            (if second_exchange_first
             then (case finish_getAccessToken s decision2 msal2 of
                     (tok2, sa, calls2) \<Rightarrow>
                       (case finish_getAccessToken sa decision1 msal1 of
                          (tok1, sb, calls1) \<Rightarrow> (tok1, calls1, tok2, calls2, sb)))
             else (case finish_getAccessToken s decision1 msal1 of
                     (tok1, sa, calls1) \<Rightarrow>
                       (case finish_getAccessToken sa decision2 msal2 of
                          (tok2, sb, calls2) \<Rightarrow> (tok1, calls1, tok2, calls2, sb))));
          (r1, sent1) =
            send_request s'
              (''api/data/v9.2/EntityDefinitions(LogicalName='' @ [CHR 0x27] @ entityName @
               [CHR 0x27] @ '')/OneToManyRelationships'') http tok1;
          (r2, sent2) =
            send_request s'
              (''api/data/v9.2/EntityDefinitions(LogicalName='' @ [CHR 0x27] @ entityName @
               [CHR 0x27] @ '')/ManyToManyRelationships'') http tok2
      in (relationships_of second_settles_first r1 r2, s', calls1 @ sent1, calls2 @ sent2))"

subsection \<open>The query-records tool\<close>

text \<open>The module-level variables of the server.\<close>

record server =
  POWERPLATFORM_CONFIG :: PowerPlatformConfig
  powerPlatformService :: "PowerPlatformService option"

definition missingConfig :: "PowerPlatformConfig \<Rightarrow> string list" where
  "missingConfig cfg =
     (if organizationUrl cfg = [] then [''organizationUrl''] else []) @
     (if clientId cfg = [] then [''clientId''] else []) @
     (if clientSecret cfg = [] then [''clientSecret''] else []) @
     (if tenantId cfg = [] then [''tenantId''] else [])"

text \<open>\<^verbatim>\<open>Array.prototype.join\<close>.\<close>

fun join :: "string \<Rightarrow> string list \<Rightarrow> string" where
  "join sep [] = []"
| "join sep [x] = x"
| "join sep (x # y # ys) = x @ sep @ join sep (y # ys)"

definition getPowerPlatformService :: "server \<Rightarrow> (js_error + PowerPlatformService) \<times> server" where
  "getPowerPlatformService g =
     (case powerPlatformService g of
        Some service \<Rightarrow> (Inr service, g)
      | None \<Rightarrow>
          if length (missingConfig (POWERPLATFORM_CONFIG g)) > 0
          then (Inl (new_Error (''Missing PowerPlatform configuration: '' @
                       join '', '' (missingConfig (POWERPLATFORM_CONFIG g)) @
                       ''. Set these in environment variables.'')), g)
          else (Inr (constructor (POWERPLATFORM_CONFIG g)),
                g\<lparr>powerPlatformService := Some (constructor (POWERPLATFORM_CONFIG g))\<rparr>))"

text \<open>
  \<^verbatim>\<open>maxRecords || 50\<close> on a \<^verbatim>\<open>number | undefined\<close>: \<^verbatim>\<open>undefined\<close> and 0 are
  falsy.
\<close>

definition or_default :: "int option \<Rightarrow> int \<Rightarrow> int" where
  "or_default v d = (case v of None \<Rightarrow> d | Some n \<Rightarrow> if n = 0 then d else n)"

text \<open>
  The handler of \<^verbatim>\<open>query-records\<close>; its result is the text of the one content item,
  a \<open>js_string\<close> since the filter is copied into it.
  Two readings of the response are parameters: \<open>JSON_stringify\<close> is
  \<^verbatim>\<open>JSON.stringify(records, null, 2)\<close> as the template prints it, and
  \<open>value_length\<close> is \<^verbatim>\<open>records.value?.length\<close>, which throws when
  \<^verbatim>\<open>records\<close> is \<^verbatim>\<open>null\<close> and is \<open>None\<close> when undefined. The service object
  is shared with the module: what the call leaves in it stays in
  \<open>powerPlatformService\<close>.
\<close>

definition query_records_tool ::
  "server \<Rightarrow> int \<Rightarrow> (string list \<Rightarrow> msal_outcome) \<Rightarrow> (http_request \<Rightarrow> 'a http_outcome) \<Rightarrow>
     ('a \<Rightarrow> js_string) \<Rightarrow> ('a \<Rightarrow> js_error + int option) \<Rightarrow>
     string \<Rightarrow> js_string \<Rightarrow> int option \<Rightarrow> js_string \<times> server \<times> net_call list" where
  "query_records_tool g currentTime msal http JSON_stringify value_length
       entityNamePlural filter_expr maxRecords =
     (case getPowerPlatformService g of
        (Inl error, g1) \<Rightarrow>
          (widen (''Failed to query records: '' @ error_toString error), g1, [])
      | (Inr service, g1) \<Rightarrow>
          (case queryRecords service currentTime msal http entityNamePlural filter_expr
                  (Some (or_default maxRecords 50)) of
             (Inl error, service', calls) \<Rightarrow>
               (widen (''Failed to query records: '' @ error_toString error),
                g1\<lparr>powerPlatformService := Some service'\<rparr>, calls)
           | (Inr records, service', calls) \<Rightarrow>
               (case value_length records of
                  Inl error \<Rightarrow>
                    (widen (''Failed to query records: '' @ error_toString error),
                     g1\<lparr>powerPlatformService := Some service'\<rparr>, calls)
                | Inr len \<Rightarrow>
                    (widen (''Retrieved '' @ Number_toString (or_default len 0) @
                            '' records from '' @ [CHR 0x27] @ entityNamePlural @ [CHR 0x27] @
                            '' with filter '' @ [CHR 0x27]) @
                     filter_expr @ widen ([CHR 0x27] @ '':'' @ [CHR 0x0A, CHR 0x0A]) @
                     JSON_stringify records,
                     g1\<lparr>powerPlatformService := Some service'\<rparr>, calls))))"

subsection \<open>Reachable caches and failing exchanges\<close>

text \<open>
  The token field is private; it starts as \<^verbatim>\<open>null\<close> and is only ever assigned a
  truthy string, so it never holds the empty string.
\<close>

definition cache_inv :: "PowerPlatformService \<Rightarrow> bool" where
  "cache_inv s \<longleftrightarrow> accessToken s \<noteq> Some []"

text \<open>
  The three ways the exchange fails: the call throws, it returns no result, or the result
  has no usable \<^verbatim>\<open>accessToken\<close>.
\<close>

definition exchange_fails :: "msal_outcome \<Rightarrow> bool" where
  "exchange_fails outcome =
     (case outcome of
        MsalThrows e \<Rightarrow> True
      | MsalReturns None \<Rightarrow> True
      | MsalReturns (Some result) \<Rightarrow> \<not> truthy (result_accessToken result))"

subsection \<open>Reading an encoded filter back\<close>





subsection \<open>Sample inputs\<close>

definition cfg0 :: PowerPlatformConfig where
  "cfg0 = \<lparr>organizationUrl = ''https://org.crm.dynamics.com'', clientId = ''id'',
           clientSecret = ''secret'', tenantId = ''tenant''\<rparr>"

definition svc_old :: PowerPlatformService where
  "svc_old = (constructor cfg0)\<lparr>accessToken := Some ''old'', tokenExpirationTime := 1000\<rparr>"

definition svc_valid :: PowerPlatformService where
  "svc_valid = (constructor cfg0)\<lparr>accessToken := Some ''old'', tokenExpirationTime := 5000\<rparr>"

definition msal_no_expiry :: "string list \<Rightarrow> msal_outcome" where
  "msal_no_expiry scopes =
     MsalReturns (Some \<lparr>result_accessToken = Some ''new'', result_expiresOn = None\<rparr>)"

definition msal_ok :: "string list \<Rightarrow> msal_outcome" where
  "msal_ok scopes =
     MsalReturns (Some \<lparr>result_accessToken = Some ''new'', result_expiresOn = Some 4000000\<rparr>)"

definition msal_down :: "string list \<Rightarrow> msal_outcome" where
  "msal_down scopes = MsalThrows (JsError ''ClientAuthError'' ''network_error'')"

definition msal_null :: "string list \<Rightarrow> msal_outcome" where
  "msal_null scopes = MsalReturns None"

definition msal_no_token :: "string list \<Rightarrow> msal_outcome" where
  "msal_no_token scopes =
     MsalReturns (Some \<lparr>result_accessToken = None, result_expiresOn = Some 4000000\<rparr>)"

definition svc_new :: PowerPlatformService where
  "svc_new = constructor cfg0"

definition http_ok :: "http_request \<Rightarrow> string http_outcome" where
  "http_ok req = HttpResponds ''{}''"

definition http_404 :: "http_request \<Rightarrow> string http_outcome" where
  "http_404 req = HttpFails (JsError ''AxiosError'' ''Request failed with status code 404'')"


definition server0 :: server where
  "server0 = \<lparr>POWERPLATFORM_CONFIG = cfg0, powerPlatformService = Some svc_valid\<rparr>"

definition stringify0 :: "string \<Rightarrow> js_string" where
  "stringify0 records = widen records"

definition value_length0 :: "string \<Rightarrow> js_error + int option" where
  "value_length0 records = Inr None"

definition http_one_fails :: "http_request \<Rightarrow> string http_outcome" where
  "http_one_fails req =
     (if req_url req = ''https://org.crm.dynamics.com/api/data/v9.2/EntityDefinitions(LogicalName='account')/OneToManyRelationships''
      then HttpFails (JsError ''AxiosError'' ''Request failed with status code 500'')
      else HttpResponds ''many'')"

section \<open>Properties\<close>

subsection \<open>Auxiliary facts about the token exchange\<close>

lemma constructor_cache_inv: "cache_inv (constructor cfg)"
  by (simp add: cache_inv_def constructor_def)

lemma store_result_cases:
  "store_result s outcome = (r, s') \<Longrightarrow>
     (\<exists>e. r = Inl e \<and> s' = s) \<or>
     (\<exists>result t. outcome = MsalReturns (Some result) \<and> result_accessToken result = Some t \<and> t \<noteq> [] \<and>
        r = Inr t \<and>
        s' = (case result_expiresOn result of
                None \<Rightarrow> s\<lparr>accessToken := Some t\<rparr>
              | Some expiresOn \<Rightarrow> s\<lparr>accessToken := Some t, tokenExpirationTime := expiresOn - 300000\<rparr>))"
  by (auto simp: store_result_def Let_def split: msal_outcome.splits option.splits if_splits)

lemma complete_exchange_Inl:
  "complete_exchange s outcome = (Inl e, s') \<Longrightarrow> e = new_Error ''Authentication failed'' \<and> s' = s"
  by (auto simp: complete_exchange_def dest: store_result_cases split: prod.splits sum.splits)

lemma complete_exchange_Inr:
  "complete_exchange s outcome = (Inr t, s') \<Longrightarrow>
     \<exists>result. outcome = MsalReturns (Some result) \<and> result_accessToken result = Some t \<and> t \<noteq> [] \<and>
        s' = (case result_expiresOn result of
                None \<Rightarrow> s\<lparr>accessToken := Some t\<rparr>
              | Some expiresOn \<Rightarrow> s\<lparr>accessToken := Some t, tokenExpirationTime := expiresOn - 300000\<rparr>)"
  by (auto simp: complete_exchange_def dest!: store_result_cases split: prod.splits sum.splits)

lemma complete_exchange_usable:
  "outcome = MsalReturns (Some result) \<Longrightarrow> result_accessToken result = Some t \<Longrightarrow> t \<noteq> [] \<Longrightarrow>
   complete_exchange s outcome =
     (Inr t, case result_expiresOn result of
                None \<Rightarrow> s\<lparr>accessToken := Some t\<rparr>
              | Some expiresOn \<Rightarrow> s\<lparr>accessToken := Some t, tokenExpirationTime := expiresOn - 300000\<rparr>)"
  by (simp add: complete_exchange_def store_result_def Let_def split: option.splits)

lemma cached_token_Some:
  "cached_token s now = Some t \<longleftrightarrow> accessToken s = Some t \<and> t \<noteq> [] \<and> tokenExpirationTime s > now"
  by (auto simp: cached_token_def split: option.splits)

lemma cached_token_None:
  "cached_token s now = None \<longleftrightarrow>
     accessToken s = None \<or> accessToken s = Some [] \<or> tokenExpirationTime s \<le> now"
  by (auto simp: cached_token_def split: option.splits)

lemma complete_exchange_fails:
  "exchange_fails outcome \<Longrightarrow>
     complete_exchange s outcome = (Inl (new_Error ''Authentication failed''), s)"
  by (auto simp: exchange_fails_def complete_exchange_def store_result_def
      split: msal_outcome.splits option.splits)

lemma complete_exchange_Inl_fails:
  "complete_exchange s outcome = (Inl e, s') \<Longrightarrow> exchange_fails outcome"
  by (auto simp: exchange_fails_def complete_exchange_def store_result_def Let_def
      split: msal_outcome.splits option.splits if_splits)

lemma getAccessToken_Inl:
  assumes "getAccessToken s now msal = (Inl e, s', calls)"
  shows "cached_token s now = None \<and> exchange_fails (msal (token_scopes s)) \<and> s' = s \<and>
         e = new_Error ''Authentication failed'' \<and> calls = [AcquireToken (token_scopes s)]"
proof (cases "cached_token s now")
  case (Some t)
  with assms show ?thesis by (simp add: getAccessToken_def finish_getAccessToken_def)
next
  case None
  with assms have c: "complete_exchange s (msal (token_scopes s)) = (Inl e, s')"
    and k: "calls = [AcquireToken (token_scopes s)]"
    by (auto simp: getAccessToken_def finish_getAccessToken_def split: prod.splits)
  from complete_exchange_Inl[OF c] complete_exchange_Inl_fails[OF c] None k
  show ?thesis by simp
qed

lemma getAccessToken_refresh_calls:
  "cached_token s now = None \<Longrightarrow>
     snd (snd (getAccessToken s now msal)) = [AcquireToken (token_scopes s)]"
  by (simp add: getAccessToken_def finish_getAccessToken_def split: prod.splits)

lemma cached_token_None_later:
  "cached_token s now = None \<Longrightarrow> now \<le> now' \<Longrightarrow> cached_token s now' = None"
  by (auto simp: cached_token_None)

subsection \<open>The caching rule\<close>

text \<open>
  Claim C2. On a reachable cache: when a token is cached and its expiration time is
  strictly later than the current time, \<open>getAccessToken\<close> returns that token, leaves the
  service as it is and makes no network call. Otherwise (no token, or expiration time
  not later than now) it makes exactly one token request, for the scope
  \<^verbatim>\<open>{organizationUrl}/.default\<close>, and when that request yields a usable token it
  returns the new token.
\<close>

theorem getAccessToken_cache_rule:
  assumes "cache_inv s"
  shows "(\<forall>t. accessToken s = Some t \<and> tokenExpirationTime s > now \<longrightarrow>
            getAccessToken s now msal = (Inr t, s, []))
       \<and> (accessToken s = None \<or> tokenExpirationTime s \<le> now \<longrightarrow>
            snd (snd (getAccessToken s now msal)) =
              [AcquireToken [organizationUrl (config s) @ ''/.default'']]
          \<and> (\<forall>result t. msal [organizationUrl (config s) @ ''/.default''] = MsalReturns (Some result)
                 \<and> result_accessToken result = Some t \<and> t \<noteq> [] \<longrightarrow>
               fst (getAccessToken s now msal) = Inr t))"
proof (intro conjI allI impI)
  fix t assume "accessToken s = Some t \<and> tokenExpirationTime s > now"
  with assms have "cached_token s now = Some t"
    by (auto simp: cached_token_Some cache_inv_def)
  then show "getAccessToken s now msal = (Inr t, s, [])"
    by (simp add: getAccessToken_def finish_getAccessToken_def)
next
  assume "accessToken s = None \<or> tokenExpirationTime s \<le> now"
  then have n: "cached_token s now = None" by (auto simp: cached_token_None)
  then show "snd (snd (getAccessToken s now msal)) =
              [AcquireToken [organizationUrl (config s) @ ''/.default'']]"
    by (simp add: getAccessToken_def finish_getAccessToken_def token_scopes_def split: prod.splits)
  fix result t
  assume "msal [organizationUrl (config s) @ ''/.default''] = MsalReturns (Some result)
                 \<and> result_accessToken result = Some t \<and> t \<noteq> []"
  then show "fst (getAccessToken s now msal) = Inr t"
    using n complete_exchange_usable[of _ result t s]
    by (simp add: getAccessToken_def finish_getAccessToken_def token_scopes_def split: prod.splits)
qed

theorem getAccessToken_cache_rule_witness:
  "cache_inv svc_valid \<and> cache_inv svc_old
   \<and> getAccessToken svc_valid 2000 msal_down = (Inr ''old'', svc_valid, [])
   \<and> snd (snd (getAccessToken svc_old 1000 msal_ok)) =
       [AcquireToken [''https://org.crm.dynamics.com/.default'']]
   \<and> fst (getAccessToken svc_old 1000 msal_ok) = Inr ''new''"
proof -
  have v: "cache_inv svc_valid" and o: "cache_inv svc_old"
    by (simp_all add: cache_inv_def svc_valid_def svc_old_def)
  have u: "organizationUrl (config svc_old) = ''https://org.crm.dynamics.com''"
    by (simp add: svc_old_def constructor_def cfg0_def)
  from getAccessToken_cache_rule[OF v, of 2000 msal_down]
  have a: "getAccessToken svc_valid 2000 msal_down = (Inr ''old'', svc_valid, [])"
    by (simp add: svc_valid_def)
  from getAccessToken_cache_rule[OF o, of 1000 msal_ok]
  have b: "snd (snd (getAccessToken svc_old 1000 msal_ok)) =
             [AcquireToken [''https://org.crm.dynamics.com/.default'']]
           \<and> fst (getAccessToken svc_old 1000 msal_ok) = Inr ''new''"
    unfolding u by (simp add: svc_old_def msal_ok_def)
  from v o a b show ?thesis by simp
qed

subsection \<open>A failed exchange\<close>

text \<open>
  Claim C4. Whenever \<open>getAccessToken\<close> fails, the exchange was attempted once and failed
  in one of the three ways, the service (cached token and expiration time included) is
  exactly what it was before the call, the error is \<open>Authentication failed\<close>, and every
  later call, at the same or a later time, attempts the exchange again.
\<close>

theorem failed_exchange_keeps_cache:
  assumes "getAccessToken s now msal = (Inl e, s', calls)"
  shows "s' = s \<and> accessToken s' = accessToken s \<and> tokenExpirationTime s' = tokenExpirationTime s
       \<and> e = new_Error ''Authentication failed''
       \<and> calls = [AcquireToken [organizationUrl (config s) @ ''/.default'']]
       \<and> exchange_fails (msal [organizationUrl (config s) @ ''/.default''])
       \<and> (\<forall>now' msal'. now \<le> now' \<longrightarrow>
            snd (snd (getAccessToken s' now' msal')) =
              [AcquireToken [organizationUrl (config s) @ ''/.default'']])"
proof -
  from getAccessToken_Inl[OF assms]
  have n: "cached_token s now = None" and f: "exchange_fails (msal (token_scopes s))"
    and s: "s' = s" and e: "e = new_Error ''Authentication failed''"
    and c: "calls = [AcquireToken (token_scopes s)]" by simp_all
  have "\<forall>now' msal'. now \<le> now' \<longrightarrow>
          snd (snd (getAccessToken s now' msal')) = [AcquireToken (token_scopes s)]"
    using cached_token_None_later[OF n] getAccessToken_refresh_calls by blast
  with f s e c show ?thesis by (simp add: token_scopes_def)
qed

theorem failed_exchange_keeps_cache_witness:
  "getAccessToken svc_old 2000 msal_down =
     (Inl (new_Error ''Authentication failed''), svc_old,
      [AcquireToken [''https://org.crm.dynamics.com/.default'']])
   \<and> snd (snd (getAccessToken svc_old 2001 msal_ok)) =
       [AcquireToken [''https://org.crm.dynamics.com/.default'']]"
proof -
  have h: "getAccessToken svc_old 2000 msal_down =
     (Inl (new_Error ''Authentication failed''), svc_old,
      [AcquireToken [''https://org.crm.dynamics.com/.default'']])"
    by (simp add: getAccessToken_def finish_getAccessToken_def cached_token_def svc_old_def
        complete_exchange_def store_result_def msal_down_def token_scopes_def constructor_def cfg0_def)
  from failed_exchange_keeps_cache[OF h] have
    "\<forall>now' msal'. 2000 \<le> now' \<longrightarrow>
            snd (snd (getAccessToken svc_old now' msal')) =
              [AcquireToken [organizationUrl (config svc_old) @ ''/.default'']]" by simp
  then have "snd (snd (getAccessToken svc_old 2001 msal_ok)) =
              [AcquireToken [organizationUrl (config svc_old) @ ''/.default'']]" by simp
  with h show ?thesis by (simp add: svc_old_def constructor_def cfg0_def)
qed

subsection \<open>Auxiliary facts about requests\<close>

lemma getAccessToken_Inr:
  assumes "getAccessToken s now msal = (Inr t, s', calls)"
  shows "(cached_token s now = Some t \<and> s' = s \<and> calls = []) \<or>
         (cached_token s now = None \<and> calls = [AcquireToken (token_scopes s)] \<and>
          (\<exists>result. msal (token_scopes s) = MsalReturns (Some result) \<and>
             result_accessToken result = Some t \<and> t \<noteq> [] \<and>
             s' = (case result_expiresOn result of
                     None \<Rightarrow> s\<lparr>accessToken := Some t\<rparr>
                   | Some expiresOn \<Rightarrow>
                       s\<lparr>accessToken := Some t, tokenExpirationTime := expiresOn - 300000\<rparr>)))"
proof (cases "cached_token s now")
  case (Some u)
  with assms show ?thesis by (simp add: getAccessToken_def finish_getAccessToken_def)
next
  case None
  with assms have c: "complete_exchange s (msal (token_scopes s)) = (Inr t, s')"
    and k: "calls = [AcquireToken (token_scopes s)]"
    by (auto simp: getAccessToken_def finish_getAccessToken_def split: prod.splits)
  from complete_exchange_Inr[OF c] None k show ?thesis by simp
qed

lemma getAccessToken_config:
  "getAccessToken s now msal = (r, s', calls) \<Longrightarrow> config s' = config s"
proof (cases r)
  case (Inl e)
  assume "getAccessToken s now msal = (r, s', calls)"
  with Inl getAccessToken_Inl[of s now msal e s' calls] show ?thesis by simp
next
  case (Inr t)
  assume "getAccessToken s now msal = (r, s', calls)"
  with Inr getAccessToken_Inr[of s now msal t s' calls] show ?thesis
    by (auto split: option.splits)
qed

lemma build_request_config:
  "config s' = config s \<Longrightarrow> build_request s' token endpoint = build_request s token endpoint"
  by (simp add: build_request_def)

lemma makeRequest_auth_failure:
  assumes "fst (getAccessToken s now msal) = Inl e"
  shows "makeRequest s now msal http endpoint =
     (Inl (new_Error ''PowerPlatform API request failed: Error: Authentication failed''), s,
      [AcquireToken (token_scopes s)])"
proof -
  from assms obtain s' calls where g: "getAccessToken s now msal = (Inl e, s', calls)"
    by (cases "getAccessToken s now msal") auto
  from getAccessToken_Inl[OF g] g show ?thesis
    by (simp add: makeRequest_def send_request_def new_Error_def error_toString_def)
qed

lemma makeRequest_token:
  assumes "getAccessToken s now msal = (Inr t, s', calls)"
  shows "makeRequest s now msal http endpoint =
     (case http (build_request s t endpoint) of
        HttpFails e \<Rightarrow>
          (Inl (new_Error (''PowerPlatform API request failed: '' @ error_toString e)), s',
           calls @ [Axios (build_request s t endpoint)])
      | HttpResponds d \<Rightarrow> (Inr d, s', calls @ [Axios (build_request s t endpoint)]))"
  using assms build_request_config[OF getAccessToken_config[OF assms]]
  by (simp add: makeRequest_def send_request_def split: http_outcome.splits)

text \<open>Every service a run can reach satisfies \<open>cache_inv\<close>.\<close>

lemma getAccessToken_cache_inv:
  assumes "cache_inv s"
  shows "cache_inv (fst (snd (getAccessToken s now msal)))"
proof (cases "getAccessToken s now msal")
  case (fields r s' calls)
  show ?thesis
  proof (cases r)
    case (Inl e)
    with fields getAccessToken_Inl[of s now msal e s' calls] assms show ?thesis by simp
  next
    case (Inr t)
    with fields getAccessToken_Inr[of s now msal t s' calls] assms show ?thesis
      by (auto simp: cache_inv_def split: option.splits)
  qed
qed

lemma makeRequest_cache_inv:
  assumes "cache_inv s"
  shows "cache_inv (fst (snd (makeRequest s now msal http endpoint)))"
proof -
  have "fst (snd (makeRequest s now msal http endpoint)) = fst (snd (getAccessToken s now msal))"
    by (simp add: makeRequest_def split: prod.splits)
  with getAccessToken_cache_inv[OF assms] show ?thesis by simp
qed

subsection \<open>What a successful exchange stores\<close>

text \<open>
  Claim C3, as stated, fails: the credential is not always replaced as a whole. When the
  result of the exchange has no \<^verbatim>\<open>expiresOn\<close>, the guard on line 54 skips the
  assignment: the new token is stored next to the expiration time of the previous
  credential.
\<close>

theorem partial_update_counterexample:
  "accessToken svc_old = Some ''old'' \<and> tokenExpirationTime svc_old = 1000
   \<and> fst (getAccessToken svc_old 2000 msal_no_expiry) = Inr ''new''
   \<and> accessToken (fst (snd (getAccessToken svc_old 2000 msal_no_expiry))) = Some ''new''
   \<and> tokenExpirationTime (fst (snd (getAccessToken svc_old 2000 msal_no_expiry))) = 1000"
  by (simp add: getAccessToken_def finish_getAccessToken_def cached_token_def svc_old_def
      complete_exchange_def store_result_def msal_no_expiry_def)

text \<open>
  Claim C3, amended. After every successful exchange the stored token is the new token;
  the stored expiration time is the reported expiry minus 300000 ms when the result
  reports one, and is left as it was when it reports none. Nothing else in the service
  changes.
\<close>

theorem successful_exchange_stores:
  assumes "getAccessToken s now msal = (Inr t, s', [AcquireToken scopes])"
  shows "\<exists>result. msal [organizationUrl (config s) @ ''/.default''] = MsalReturns (Some result)
           \<and> result_accessToken result = Some t
           \<and> accessToken s' = Some t
           \<and> tokenExpirationTime s' =
               (case result_expiresOn result of
                  None \<Rightarrow> tokenExpirationTime s
                | Some expiresOn \<Rightarrow> expiresOn - 300000)
           \<and> config s' = config s \<and> msalClient s' = msalClient s"
proof -
  from getAccessToken_Inr[OF assms] obtain result where
    m: "msal (token_scopes s) = MsalReturns (Some result)"
    and r: "result_accessToken result = Some t"
    and s: "s' = (case result_expiresOn result of
                     None \<Rightarrow> s\<lparr>accessToken := Some t\<rparr>
                   | Some expiresOn \<Rightarrow>
                       s\<lparr>accessToken := Some t, tokenExpirationTime := expiresOn - 300000\<rparr>)"
    by auto
  from s have "accessToken s' = Some t \<and> tokenExpirationTime s' =
               (case result_expiresOn result of
                  None \<Rightarrow> tokenExpirationTime s
                | Some expiresOn \<Rightarrow> expiresOn - 300000)
           \<and> config s' = config s \<and> msalClient s' = msalClient s"
    by (simp split: option.splits)
  with m r show ?thesis unfolding token_scopes_def by blast
qed

theorem successful_exchange_stores_witness:
  "getAccessToken svc_old 2000 msal_ok =
     (Inr ''new'', svc_old\<lparr>accessToken := Some ''new'', tokenExpirationTime := 3700000\<rparr>,
      [AcquireToken [''https://org.crm.dynamics.com/.default'']])
   \<and> (\<exists>result. msal_ok [''https://org.crm.dynamics.com/.default''] = MsalReturns (Some result)
         \<and> result_accessToken result = Some ''new''
         \<and> tokenExpirationTime (svc_old\<lparr>accessToken := Some ''new'', tokenExpirationTime := 3700000\<rparr>) =
               (case result_expiresOn result of
                  None \<Rightarrow> 1000
                | Some expiresOn \<Rightarrow> expiresOn - 300000))"
proof -
  have h: "getAccessToken svc_old 2000 msal_ok =
     (Inr ''new'', svc_old\<lparr>accessToken := Some ''new'', tokenExpirationTime := 3700000\<rparr>,
      [AcquireToken [''https://org.crm.dynamics.com/.default'']])"
    by (simp add: getAccessToken_def finish_getAccessToken_def cached_token_def svc_old_def
        complete_exchange_def store_result_def msal_ok_def token_scopes_def constructor_def cfg0_def)
  have u: "organizationUrl (config svc_old) = ''https://org.crm.dynamics.com''"
    and e: "tokenExpirationTime svc_old = 1000"
    by (simp_all add: svc_old_def constructor_def cfg0_def)
  from successful_exchange_stores[OF h] show ?thesis
    unfolding u e using h by auto
qed

subsection \<open>The error of a failed token acquisition\<close>

text \<open>
  Claim C10. Whenever \<open>getAccessToken\<close> fails, the error is
  \<^verbatim>\<open>Error('Authentication failed')\<close>; and with no valid cached token each of the
  three causes (the call throws, no result, no usable token field) makes it fail with
  that same error, so the error does not tell the causes apart.
\<close>

theorem auth_error_fixed_message:
  "(\<forall>e. fst (getAccessToken s now msal) = Inl e \<longrightarrow> e = new_Error ''Authentication failed'')
   \<and> ((accessToken s = None \<or> tokenExpirationTime s \<le> now)
        \<and> exchange_fails (msal [organizationUrl (config s) @ ''/.default'']) \<longrightarrow>
      fst (getAccessToken s now msal) = Inl (new_Error ''Authentication failed''))"
proof (intro conjI allI impI)
  fix e assume "fst (getAccessToken s now msal) = Inl e"
  then obtain s' calls where "getAccessToken s now msal = (Inl e, s', calls)"
    by (cases "getAccessToken s now msal") auto
  from getAccessToken_Inl[OF this] show "e = new_Error ''Authentication failed''" by simp
next
  assume a: "(accessToken s = None \<or> tokenExpirationTime s \<le> now)
        \<and> exchange_fails (msal [organizationUrl (config s) @ ''/.default''])"
  then have "cached_token s now = None" by (auto simp: cached_token_None)
  moreover from a have "exchange_fails (msal (token_scopes s))" by (simp add: token_scopes_def)
  ultimately show "fst (getAccessToken s now msal) = Inl (new_Error ''Authentication failed'')"
    by (simp add: getAccessToken_def finish_getAccessToken_def complete_exchange_fails)
qed

theorem auth_error_fixed_message_witness:
  "exchange_fails (msal_down [''https://org.crm.dynamics.com/.default''])
   \<and> exchange_fails (msal_null [''https://org.crm.dynamics.com/.default''])
   \<and> exchange_fails (msal_no_token [''https://org.crm.dynamics.com/.default''])
   \<and> fst (getAccessToken svc_new 2000 msal_down) = Inl (new_Error ''Authentication failed'')
   \<and> fst (getAccessToken svc_new 2000 msal_null) = Inl (new_Error ''Authentication failed'')
   \<and> fst (getAccessToken svc_new 2000 msal_no_token) = Inl (new_Error ''Authentication failed'')"
proof -
  have n: "accessToken svc_new = None \<or> tokenExpirationTime svc_new \<le> 2000"
    by (simp add: svc_new_def constructor_def)
  have f1: "exchange_fails (msal_down scopes)"
    and f2: "exchange_fails (msal_null scopes)"
    and f3: "exchange_fails (msal_no_token scopes)" for scopes
    by (simp_all add: exchange_fails_def msal_down_def msal_null_def msal_no_token_def)
  have r1: "fst (getAccessToken svc_new 2000 msal_down) = Inl (new_Error ''Authentication failed'')"
    using auth_error_fixed_message[of svc_new 2000 msal_down, THEN conjunct2] n f1
    by (rule mp[OF _ conjI])
  have r2: "fst (getAccessToken svc_new 2000 msal_null) = Inl (new_Error ''Authentication failed'')"
    using auth_error_fixed_message[of svc_new 2000 msal_null, THEN conjunct2] n f2
    by (rule mp[OF _ conjI])
  have r3: "fst (getAccessToken svc_new 2000 msal_no_token) =
      Inl (new_Error ''Authentication failed'')"
    using auth_error_fixed_message[of svc_new 2000 msal_no_token, THEN conjunct2] n f3
    by (rule mp[OF _ conjI])
  from f1 f2 f3 r1 r2 r3 show ?thesis by (intro conjI)
qed

subsection \<open>Errors of makeRequest\<close>

text \<open>
  Claim C1, as stated, fails: the \<^verbatim>\<open>try\<close> of \<open>makeRequest\<close> encloses the call to
  \<open>getAccessToken\<close>, so the authentication error is wrapped like any other and does
  not come out unchanged.
\<close>

theorem auth_error_unchanged_counterexample:
  "fst (getAccessToken svc_new 2000 msal_down) = Inl (new_Error ''Authentication failed'')
   \<and> fst (makeRequest svc_new 2000 msal_down http_ok ''api/data/v9.2/accounts'') =
       Inl (new_Error ''PowerPlatform API request failed: Error: Authentication failed'')
   \<and> fst (makeRequest svc_new 2000 msal_down http_ok ''api/data/v9.2/accounts'') \<noteq>
       Inl (new_Error ''Authentication failed'')"
  by (simp add: makeRequest_def send_request_def getAccessToken_def finish_getAccessToken_def
      cached_token_def svc_new_def constructor_def complete_exchange_def store_result_def
      msal_down_def new_Error_def error_toString_def)

text \<open>
  Claim C1, amended. When token acquisition fails, \<open>makeRequest\<close> fails with
  \<^verbatim>\<open>Error('PowerPlatform API request failed: Error: Authentication failed')\<close>, the
  authentication error wrapped, after the one token request and without any HTTP request.
  When the token is obtained and the HTTP request fails with an error, \<open>makeRequest\<close>
  fails with \<^verbatim>\<open>Error('PowerPlatform API request failed: ' + error)\<close>.
\<close>

theorem makeRequest_wraps_every_failure:
  "(\<forall>e. fst (getAccessToken s now msal) = Inl e \<longrightarrow>
       fst (makeRequest s now msal http endpoint) =
         Inl (new_Error (''PowerPlatform API request failed: '' @ error_toString e))
     \<and> error_toString e = ''Error: Authentication failed''
     \<and> snd (snd (makeRequest s now msal http endpoint)) =
         [AcquireToken [organizationUrl (config s) @ ''/.default'']])
   \<and> (\<forall>t e. fst (getAccessToken s now msal) = Inr t
         \<and> http (build_request s t endpoint) = HttpFails e \<longrightarrow>
       fst (makeRequest s now msal http endpoint) =
         Inl (new_Error (''PowerPlatform API request failed: '' @ error_toString e)))"
proof (intro conjI allI impI)
  fix e assume a: "fst (getAccessToken s now msal) = Inl e"
  then obtain s' calls where g: "getAccessToken s now msal = (Inl e, s', calls)"
    by (cases "getAccessToken s now msal") auto
  from getAccessToken_Inl[OF g] show t: "error_toString e = ''Error: Authentication failed''"
    by (simp add: new_Error_def error_toString_def)
  from makeRequest_auth_failure[OF a, of http endpoint] t
  show "fst (makeRequest s now msal http endpoint) =
         Inl (new_Error (''PowerPlatform API request failed: '' @ error_toString e))"
    by simp
  from makeRequest_auth_failure[OF a, of http endpoint]
  show "snd (snd (makeRequest s now msal http endpoint)) =
         [AcquireToken [organizationUrl (config s) @ ''/.default'']]"
    by (simp add: token_scopes_def)
next
  fix t e
  assume a: "fst (getAccessToken s now msal) = Inr t
         \<and> http (build_request s t endpoint) = HttpFails e"
  then obtain s' calls where g: "getAccessToken s now msal = (Inr t, s', calls)"
    by (cases "getAccessToken s now msal") auto
  from makeRequest_token[OF g, of http endpoint] a
  show "fst (makeRequest s now msal http endpoint) =
         Inl (new_Error (''PowerPlatform API request failed: '' @ error_toString e))"
    by simp
qed

theorem makeRequest_wraps_every_failure_witness:
  "fst (getAccessToken svc_new 2000 msal_down) = Inl (new_Error ''Authentication failed'')
   \<and> fst (makeRequest svc_new 2000 msal_down http_ok ''api/data/v9.2/accounts'') =
       Inl (new_Error ''PowerPlatform API request failed: Error: Authentication failed'')
   \<and> fst (getAccessToken svc_valid 2000 msal_down) = Inr ''old''
   \<and> http_404 (build_request svc_valid ''old'' ''api/data/v9.2/accounts'') =
       HttpFails (JsError ''AxiosError'' ''Request failed with status code 404'')
   \<and> fst (makeRequest svc_valid 2000 msal_down http_404 ''api/data/v9.2/accounts'') =
       Inl (new_Error (''PowerPlatform API request failed: '' @
              ''AxiosError: Request failed with status code 404''))"
proof -
  have a: "fst (getAccessToken svc_new 2000 msal_down) = Inl (new_Error ''Authentication failed'')"
    by (simp add: getAccessToken_def finish_getAccessToken_def cached_token_def svc_new_def
        constructor_def complete_exchange_def store_result_def msal_down_def)
  have b: "fst (getAccessToken svc_valid 2000 msal_down) = Inr ''old''"
    by (simp add: getAccessToken_def finish_getAccessToken_def cached_token_def svc_valid_def)
  have c: "http_404 (build_request svc_valid ''old'' ''api/data/v9.2/accounts'') =
       HttpFails (JsError ''AxiosError'' ''Request failed with status code 404'')"
    by (simp add: http_404_def)
  have "\<forall>e. fst (getAccessToken svc_new 2000 msal_down) = Inl e \<longrightarrow>
       fst (makeRequest svc_new 2000 msal_down http_ok ''api/data/v9.2/accounts'') =
         Inl (new_Error (''PowerPlatform API request failed: '' @ error_toString e))
     \<and> error_toString e = ''Error: Authentication failed''
     \<and> snd (snd (makeRequest svc_new 2000 msal_down http_ok ''api/data/v9.2/accounts'')) =
         [AcquireToken [organizationUrl (config svc_new) @ ''/.default'']]"
    using makeRequest_wraps_every_failure
      [of svc_new 2000 msal_down http_ok "''api/data/v9.2/accounts''"]
    by (rule conjunct1)
  then have "fst (getAccessToken svc_new 2000 msal_down) =
        Inl (new_Error ''Authentication failed'') \<longrightarrow>
       fst (makeRequest svc_new 2000 msal_down http_ok ''api/data/v9.2/accounts'') =
         Inl (new_Error (''PowerPlatform API request failed: '' @
           error_toString (new_Error ''Authentication failed'')))
     \<and> error_toString (new_Error ''Authentication failed'') = ''Error: Authentication failed''
     \<and> snd (snd (makeRequest svc_new 2000 msal_down http_ok ''api/data/v9.2/accounts'')) =
         [AcquireToken [organizationUrl (config svc_new) @ ''/.default'']]"
    by (rule spec)
  from this a have "fst (makeRequest svc_new 2000 msal_down http_ok ''api/data/v9.2/accounts'') =
         Inl (new_Error (''PowerPlatform API request failed: '' @
           error_toString (new_Error ''Authentication failed'')))
     \<and> error_toString (new_Error ''Authentication failed'') = ''Error: Authentication failed''
     \<and> snd (snd (makeRequest svc_new 2000 msal_down http_ok ''api/data/v9.2/accounts'')) =
         [AcquireToken [organizationUrl (config svc_new) @ ''/.default'']]"
    by (rule mp)
  then have d: "fst (makeRequest svc_new 2000 msal_down http_ok ''api/data/v9.2/accounts'') =
       Inl (new_Error ''PowerPlatform API request failed: Error: Authentication failed'')"
    by simp
  have "\<forall>t e. fst (getAccessToken svc_valid 2000 msal_down) = Inr t
         \<and> http_404 (build_request svc_valid t ''api/data/v9.2/accounts'') = HttpFails e \<longrightarrow>
       fst (makeRequest svc_valid 2000 msal_down http_404 ''api/data/v9.2/accounts'') =
         Inl (new_Error (''PowerPlatform API request failed: '' @ error_toString e))"
    using makeRequest_wraps_every_failure
      [of svc_valid 2000 msal_down http_404 "''api/data/v9.2/accounts''"]
    by (rule conjunct2)
  with b c
  have "fst (makeRequest svc_valid 2000 msal_down http_404 ''api/data/v9.2/accounts'') =
         Inl (new_Error (''PowerPlatform API request failed: '' @
           error_toString (JsError ''AxiosError'' ''Request failed with status code 404'')))"
    by blast
  then have e: "fst (makeRequest svc_valid 2000 msal_down http_404 ''api/data/v9.2/accounts'') =
       Inl (new_Error (''PowerPlatform API request failed: '' @
              ''AxiosError: Request failed with status code 404''))"
    by (simp add: error_toString_def)
  from a b c d e show ?thesis by (intro conjI)
qed

subsection \<open>Auxiliary facts about traces, encoding and numerals\<close>

lemma makeRequest_calls_cases:
  "(\<exists>e s'. getAccessToken s now msal = (Inl e, s', [AcquireToken (token_scopes s)]) \<and>
       snd (makeRequest s now msal http endpoint) = (s', [AcquireToken (token_scopes s)])) \<or>
   (\<exists>t s' calls. getAccessToken s now msal = (Inr t, s', calls) \<and> accessToken s' = Some t \<and>
       (\<forall>c \<in> set calls. \<exists>sc. c = AcquireToken sc) \<and>
       snd (makeRequest s now msal http endpoint) =
         (s', calls @ [Axios (build_request s t endpoint)]))"
proof (cases "getAccessToken s now msal")
  case (fields r s' calls)
  show ?thesis
  proof (cases r)
    case (Inl e)
    with fields getAccessToken_Inl[of s now msal e s' calls]
      makeRequest_auth_failure[of s now msal e http endpoint]
    show ?thesis by simp
  next
    case (Inr t)
    with fields have g: "getAccessToken s now msal = (Inr t, s', calls)" by simp
    from getAccessToken_Inr[OF g] have "accessToken s' = Some t"
      by (auto simp: cached_token_Some split: option.splits)
    moreover from getAccessToken_Inr[OF g] have "\<forall>c \<in> set calls. \<exists>sc. c = AcquireToken sc"
      by auto
    moreover from makeRequest_token[OF g, of http endpoint]
    have "snd (makeRequest s now msal http endpoint) =
         (s', calls @ [Axios (build_request s t endpoint)])"
      by (simp split: http_outcome.splits)
    ultimately show ?thesis using g by blast
  qed
qed

lemma makeRequest_axios_url:
  assumes "c \<in> set (snd (snd (makeRequest s now msal http endpoint)))" and "c = Axios req"
  shows "req_url req = organizationUrl (config s) @ ''/'' @ endpoint"
  using makeRequest_calls_cases[of s now msal http endpoint] assms
  by (auto simp: build_request_def)

lemma makeRequest_valid_trace:
  assumes "cached_token s now = Some t"
  shows "snd (snd (makeRequest s now msal http endpoint)) = [Axios (build_request s t endpoint)]"
  using assms
  by (simp add: makeRequest_def getAccessToken_def finish_getAccessToken_def send_request_def
      split: http_outcome.splits)

lemma cached_token_svc_valid: "cached_token svc_valid 2000 = Some ''old''"
  by (simp add: cached_token_def svc_valid_def)

lemma url_svc_valid: "organizationUrl (config svc_valid) = ''https://org.crm.dynamics.com''"
  by (simp add: svc_valid_def constructor_def cfg0_def)

















lemmas encode_eval = unreserved_unit_def leading_surrogate_def trailing_surrogate_def
  surrogate_pair_def utf8_def percent_def hex_digit_def uriUnreserved_def prepend_def widen_def
  char_of_def bit_Suc_0_iff


lemma encodeURIComponent_statecode: "encodeURIComponent (widen ''statecode'') = Inr ''statecode''"
  by (simp add: encode_eval)



lemma Number_toString_50: "Number_toString 50 = ''50''"
  by code_simp

lemma digit_char_zero_all: "\<forall>d \<in> set [0..<10]. (digit_char d = CHR ''0'') = (d = 0)"
  by code_simp

lemma decimal_not_Nil: "decimal n \<noteq> []"
  by (subst decimal.simps) simp

lemma decimal_zero: "decimal n = ''0'' \<longleftrightarrow> n = 0"
proof (cases "n < 10")
  case True
  then have "decimal n = [digit_char n]" by (subst decimal.simps) simp
  with True digit_char_zero_all show ?thesis by simp
next
  case False
  then have "decimal n = decimal (n div 10) @ [digit_char (n mod 10)]"
    by (subst decimal.simps) simp
  with False decimal_not_Nil[of "n div 10"] show ?thesis by (cases "decimal (n div 10)") auto
qed

lemma Number_toString_zero: "Number_toString n = ''0'' \<longleftrightarrow> n = 0"
  by (auto simp: Number_toString_def decimal_zero)

lemma queryRecords_encoded:
  "encodeURIComponent f = Inr enc \<Longrightarrow>
   queryRecords s now msal http entityNamePlural f maxRecords =
     makeRequest s now msal http
       (''api/data/v9.2/'' @ entityNamePlural @ ''?$filter='' @ enc @
        ''&$top='' @ Number_toString (case maxRecords of None \<Rightarrow> 50 | Some n \<Rightarrow> n))"
  by (simp add: queryRecords_def)

lemma queryRecords_throws:
  "encodeURIComponent f = Inl e \<Longrightarrow>
   queryRecords s now msal http entityNamePlural f maxRecords = (Inl e, s, [])"
  by (simp add: queryRecords_def)







lemma getPowerPlatformService_cases:
  "(\<exists>e. getPowerPlatformService g = (Inl e, g)) \<or>
   (\<exists>service g1. getPowerPlatformService g = (Inr service, g1))"
  by (cases "getPowerPlatformService g"; cases "fst (getPowerPlatformService g)")
     (auto simp: getPowerPlatformService_def split: option.splits if_splits)

lemma query_records_tool_trace:
  "snd (snd (query_records_tool g now msal http js vl e f maxRecords)) =
     (case getPowerPlatformService g of
        (Inl error, g1) \<Rightarrow> []
      | (Inr service, g1) \<Rightarrow>
          snd (snd (queryRecords service now msal http e f (Some (or_default maxRecords 50)))))"
  by (simp add: query_records_tool_def split: prod.splits sum.splits)

subsection \<open>The request that goes out\<close>

text \<open>
  Claim C7. Every HTTP request in the trace of \<open>makeRequest\<close> is a \<^verbatim>\<open>GET\<close> to
  \<^verbatim>\<open>{organizationUrl}/{endpoint}\<close> with exactly the headers
  \<^verbatim>\<open>Authorization: Bearer <token>\<close>, \<^verbatim>\<open>Accept: application/json\<close>,
  \<^verbatim>\<open>OData-MaxVersion: 4.0\<close> and \<^verbatim>\<open>OData-Version: 4.0\<close>, where the token is the one
  \<open>getAccessToken\<close> has just returned, which is also the token the service holds after
  the call.
\<close>

theorem every_request_is_authenticated_get:
  "\<forall>c \<in> set (snd (snd (makeRequest s now msal http endpoint))). \<forall>req. c = Axios req \<longrightarrow>
     (\<exists>token. fst (getAccessToken s now msal) = Inr token
        \<and> accessToken (fst (snd (makeRequest s now msal http endpoint))) = Some token
        \<and> req = \<lparr>req_method = ''GET'',
                  req_url = organizationUrl (config s) @ ''/'' @ endpoint,
                  req_headers =
                    [(''Authorization'', ''Bearer '' @ token),
                     (''Accept'', ''application/json''),
                     (''OData-MaxVersion'', ''4.0''),
                     (''OData-Version'', ''4.0'')]\<rparr>)"
  using makeRequest_calls_cases[of s now msal http endpoint]
  by (auto simp: build_request_def)

theorem every_request_is_authenticated_get_witness:
  "Axios \<lparr>req_method = ''GET'',
          req_url = ''https://org.crm.dynamics.com/api/data/v9.2/accounts'',
          req_headers =
            [(''Authorization'', ''Bearer new''),
             (''Accept'', ''application/json''),
             (''OData-MaxVersion'', ''4.0''),
             (''OData-Version'', ''4.0'')]\<rparr>
     \<in> set (snd (snd (makeRequest svc_old 2000 msal_ok http_ok ''api/data/v9.2/accounts'')))
   \<and> (\<exists>token. fst (getAccessToken svc_old 2000 msal_ok) = Inr token
        \<and> accessToken (fst (snd (makeRequest svc_old 2000 msal_ok http_ok
              ''api/data/v9.2/accounts''))) = Some token
        \<and> \<lparr>req_method = ''GET'',
            req_url = ''https://org.crm.dynamics.com/api/data/v9.2/accounts'',
            req_headers =
              [(''Authorization'', ''Bearer new''),
               (''Accept'', ''application/json''),
               (''OData-MaxVersion'', ''4.0''),
               (''OData-Version'', ''4.0'')]\<rparr> =
          \<lparr>req_method = ''GET'',
            req_url = organizationUrl (config svc_old) @ ''/'' @ ''api/data/v9.2/accounts'',
            req_headers =
              [(''Authorization'', ''Bearer '' @ token),
               (''Accept'', ''application/json''),
               (''OData-MaxVersion'', ''4.0''),
               (''OData-Version'', ''4.0'')]\<rparr>)"
proof -
  let ?req = "\<lparr>req_method = ''GET'',
          req_url = ''https://org.crm.dynamics.com/api/data/v9.2/accounts'',
          req_headers =
            [(''Authorization'', ''Bearer new''),
             (''Accept'', ''application/json''),
             (''OData-MaxVersion'', ''4.0''),
             (''OData-Version'', ''4.0'')]\<rparr>"
  have m: "Axios ?req
     \<in> set (snd (snd (makeRequest svc_old 2000 msal_ok http_ok ''api/data/v9.2/accounts'')))"
    by (simp add: makeRequest_def send_request_def getAccessToken_def finish_getAccessToken_def
        cached_token_def svc_old_def complete_exchange_def store_result_def msal_ok_def
        http_ok_def build_request_def constructor_def cfg0_def)
  from every_request_is_authenticated_get
    [of svc_old 2000 msal_ok http_ok "''api/data/v9.2/accounts''", THEN bspec, OF m,
     THEN spec, of ?req, THEN mp, OF refl]
  show ?thesis using m by (intro conjI)
qed

subsection \<open>Paths\<close>

text \<open>
  Claim C8. \<open>getEntityMetadata\<close> on \<^verbatim>\<open>account\<close> is \<open>makeRequest\<close> on the relative
  path \<^verbatim>\<open>api/data/v9.2/EntityDefinitions(LogicalName='account')\<close>; for every entity name
  the relative path is \<^verbatim>\<open>api/data/v9.2/EntityDefinitions(LogicalName='<entityName>')\<close>,
  and every HTTP request of the call goes to that path under the organization URL.
\<close>

theorem getEntityMetadata_path:
  "getEntityMetadata s now msal http ''account'' =
     makeRequest s now msal http ''api/data/v9.2/EntityDefinitions(LogicalName='account')''
   \<and> getEntityMetadata s now msal http entityName =
       makeRequest s now msal http
         (''api/data/v9.2/EntityDefinitions(LogicalName='' @ [CHR 0x27] @ entityName @
          [CHR 0x27] @ '')'')
   \<and> (\<forall>c \<in> set (snd (snd (getEntityMetadata s now msal http entityName))). \<forall>req.
         c = Axios req \<longrightarrow>
         req_url req = organizationUrl (config s) @ ''/'' @
           ''api/data/v9.2/EntityDefinitions(LogicalName='' @ [CHR 0x27] @ entityName @
           [CHR 0x27] @ '')'')"
proof (intro conjI ballI allI impI)
  show "getEntityMetadata s now msal http ''account'' =
     makeRequest s now msal http ''api/data/v9.2/EntityDefinitions(LogicalName='account')''"
    by (simp add: getEntityMetadata_def)
  show "getEntityMetadata s now msal http entityName =
       makeRequest s now msal http
         (''api/data/v9.2/EntityDefinitions(LogicalName='' @ [CHR 0x27] @ entityName @
          [CHR 0x27] @ '')'')"
    by (simp add: getEntityMetadata_def)
next
  fix c req
  assume "c \<in> set (snd (snd (getEntityMetadata s now msal http entityName)))" "c = Axios req"
  then show "req_url req = organizationUrl (config s) @ ''/'' @
           ''api/data/v9.2/EntityDefinitions(LogicalName='' @ [CHR 0x27] @ entityName @
           [CHR 0x27] @ '')''"
    unfolding getEntityMetadata_def by (rule makeRequest_axios_url)
qed

theorem getEntityMetadata_path_witness:
  "Axios (build_request svc_valid ''old''
            ''api/data/v9.2/EntityDefinitions(LogicalName='account')'')
     \<in> set (snd (snd (getEntityMetadata svc_valid 2000 msal_down http_ok ''account'')))
   \<and> req_url (build_request svc_valid ''old''
         ''api/data/v9.2/EntityDefinitions(LogicalName='account')'') =
       ''https://org.crm.dynamics.com/api/data/v9.2/EntityDefinitions(LogicalName='account')''"
proof -
  let ?req = "build_request svc_valid ''old''
            ''api/data/v9.2/EntityDefinitions(LogicalName='account')''"
  note T = getEntityMetadata_path[of svc_valid 2000 msal_down http_ok "''account''"]
  from T have e: "getEntityMetadata svc_valid 2000 msal_down http_ok ''account'' =
     makeRequest svc_valid 2000 msal_down http_ok
       ''api/data/v9.2/EntityDefinitions(LogicalName='account')''"
    by (rule conjunct1)
  have m: "Axios ?req
     \<in> set (snd (snd (getEntityMetadata svc_valid 2000 msal_down http_ok ''account'')))"
    unfolding e makeRequest_valid_trace[OF cached_token_svc_valid] by simp
  from T[THEN conjunct2, THEN conjunct2, THEN bspec, OF m, THEN spec, of ?req, THEN mp, OF refl]
  have "req_url ?req =
       ''https://org.crm.dynamics.com/api/data/v9.2/EntityDefinitions(LogicalName='account')''"
    unfolding url_svc_valid by simp
  with m show ?thesis by (intro conjI)
qed




subsection \<open>The row cap at the tool boundary\<close>

text \<open>
  Claim C9. The handler of \<^verbatim>\<open>query-records\<close> treats a \<^verbatim>\<open>maxRecords\<close> of 0 exactly
  as an omitted one: \<^verbatim>\<open>maxRecords || 50\<close> is 50 for both and is never 0, so every
  HTTP request of the handler ends in \<^verbatim>\<open>&$top=n\<close> with \<open>n\<close> the non-zero value
  passed to \<open>queryRecords\<close>, never in \<^verbatim>\<open>&$top=0\<close>.
\<close>

theorem query_records_tool_zero_cap:
  "query_records_tool g now msal http JSON_stringify value_length entityNamePlural f (Some 0) =
     query_records_tool g now msal http JSON_stringify value_length entityNamePlural f None
   \<and> or_default (Some 0) 50 = 50
   \<and> or_default maxRecords 50 \<noteq> 0
   \<and> (\<forall>c \<in> set (snd (snd (query_records_tool g now msal http JSON_stringify value_length
                  entityNamePlural f maxRecords))). \<forall>req.
         c = Axios req \<longrightarrow>
         (\<exists>base enc. encodeURIComponent f = Inr enc \<and>
             req_url req = base @ ''/api/data/v9.2/'' @ entityNamePlural @ ''?$filter='' @
               enc @ ''&$top='' @ Number_toString (or_default maxRecords 50))
         \<and> Number_toString (or_default maxRecords 50) \<noteq> ''0'')"
proof (intro conjI ballI allI impI)
  show "query_records_tool g now msal http JSON_stringify value_length entityNamePlural f (Some 0) =
     query_records_tool g now msal http JSON_stringify value_length entityNamePlural f None"
  proof -
    have "or_default (Some 0) 50 = or_default None 50" by (simp add: or_default_def)
    then show ?thesis unfolding query_records_tool_def by (rule arg_cong)
  qed
  show "or_default (Some 0) 50 = 50" by (simp add: or_default_def)
  show z: "or_default maxRecords 50 \<noteq> 0" by (simp add: or_default_def split: option.splits)
  then show "Number_toString (or_default maxRecords 50) \<noteq> ''0''"
    by (simp add: Number_toString_zero)
next
  fix c req
  assume c: "c \<in> set (snd (snd (query_records_tool g now msal http JSON_stringify value_length
                  entityNamePlural f maxRecords)))" and r: "c = Axios req"
  from getPowerPlatformService_cases[of g]
  show "\<exists>base enc. encodeURIComponent f = Inr enc \<and>
             req_url req = base @ ''/api/data/v9.2/'' @ entityNamePlural @ ''?$filter='' @
               enc @ ''&$top='' @ Number_toString (or_default maxRecords 50)"
  proof (elim disjE exE)
    fix e assume "getPowerPlatformService g = (Inl e, g)"
    with c show ?thesis by (simp add: query_records_tool_trace)
  next
    fix service g1 assume "getPowerPlatformService g = (Inr service, g1)"
    with c have q: "c \<in> set (snd (snd (queryRecords service now msal http entityNamePlural f
                     (Some (or_default maxRecords 50)))))"
      by (simp add: query_records_tool_trace)
    show ?thesis
    proof (cases "encodeURIComponent f")
      case (Inl e)
      from queryRecords_throws[OF this, of service now msal http entityNamePlural
          "Some (or_default maxRecords 50)"] q
      show ?thesis by simp
    next
      case (Inr enc)
      from q have "c \<in> set (snd (snd (makeRequest service now msal http
           (''api/data/v9.2/'' @ entityNamePlural @ ''?$filter='' @ enc @
            ''&$top='' @ Number_toString (or_default maxRecords 50)))))"
        unfolding queryRecords_encoded[OF Inr] by simp
      from makeRequest_axios_url[OF this r]
      have "req_url req = organizationUrl (config service) @ ''/api/data/v9.2/'' @
          entityNamePlural @ ''?$filter='' @ enc @ ''&$top='' @
          Number_toString (or_default maxRecords 50)"
        by simp
      with Inr show ?thesis by blast
    qed
  qed
qed

theorem query_records_tool_zero_cap_witness:
  "Axios (build_request svc_valid ''old''
       ''api/data/v9.2/contacts?$filter=statecode&$top=50'')
     \<in> set (snd (snd (query_records_tool server0 2000 msal_down http_ok stringify0 value_length0
                ''contacts'' (widen ''statecode'') (Some 0))))
   \<and> (\<exists>base enc. encodeURIComponent (widen ''statecode'') = Inr enc \<and>
         req_url (build_request svc_valid ''old''
                  ''api/data/v9.2/contacts?$filter=statecode&$top=50'') =
         base @ ''/api/data/v9.2/'' @ ''contacts'' @ ''?$filter='' @
           enc @ ''&$top='' @ Number_toString (or_default (Some 0) 50))
   \<and> Number_toString (or_default (Some 0) 50) = ''50''"
proof -
  let ?req = "build_request svc_valid ''old''
       ''api/data/v9.2/contacts?$filter=statecode&$top=50''"
  have g: "getPowerPlatformService server0 = (Inr svc_valid, server0)"
    by (simp add: getPowerPlatformService_def server0_def)
  have d: "or_default (Some 0) 50 = 50" by (simp add: or_default_def)
  have m: "Axios ?req
     \<in> set (snd (snd (query_records_tool server0 2000 msal_down http_ok stringify0 value_length0
                ''contacts'' (widen ''statecode'') (Some 0))))"
    unfolding query_records_tool_trace g queryRecords_encoded[OF encodeURIComponent_statecode] d
    by (simp add: Number_toString_50 makeRequest_valid_trace[OF cached_token_svc_valid])
  note T = query_records_tool_zero_cap[of server0 2000 msal_down http_ok stringify0 value_length0
      "''contacts''" "widen ''statecode''" "Some 0"]
  from T have "\<forall>c \<in> set (snd (snd (query_records_tool server0 2000 msal_down http_ok stringify0
                  value_length0 ''contacts'' (widen ''statecode'') (Some 0)))). \<forall>req.
         c = Axios req \<longrightarrow>
         (\<exists>base enc. encodeURIComponent (widen ''statecode'') = Inr enc \<and>
             req_url req = base @ ''/api/data/v9.2/'' @ ''contacts'' @ ''?$filter='' @
             enc @ ''&$top='' @ Number_toString (or_default (Some 0) 50))
         \<and> Number_toString (or_default (Some 0) 50) \<noteq> ''0''"
    by (elim conjE)
  from this[THEN bspec, OF m, THEN spec, of ?req, THEN mp, OF refl]
  have "\<exists>base enc. encodeURIComponent (widen ''statecode'') = Inr enc \<and>
         req_url ?req = base @ ''/api/data/v9.2/'' @ ''contacts'' @ ''?$filter='' @
             enc @ ''&$top='' @ Number_toString (or_default (Some 0) 50)"
    by (rule conjunct1)
  moreover have "Number_toString (or_default (Some 0) 50) = ''50''"
    unfolding d by (rule Number_toString_50)
  ultimately show ?thesis using m by (intro conjI)
qed

subsection \<open>Auxiliary facts about the combined relationships call\<close>

lemma store_result_fst: "fst (store_result s outcome) = fst (store_result s' outcome)"
  by (simp add: store_result_def Let_def split: msal_outcome.splits option.splits)

lemma complete_exchange_fst:
  "fst (complete_exchange s outcome) = fst (complete_exchange s' outcome)"
  using store_result_fst[of s outcome s']
  by (cases "store_result s outcome"; cases "store_result s' outcome")
     (auto simp: complete_exchange_def split: sum.splits)

lemma complete_exchange_config:
  "config (snd (complete_exchange s outcome)) = config s"
  by (cases "complete_exchange s outcome"; cases "fst (complete_exchange s outcome)")
     (auto dest!: complete_exchange_Inl complete_exchange_Inr split: option.splits)

lemma finish_getAccessToken_config:
  "config (fst (snd (finish_getAccessToken s d msal))) = config s"
proof (cases d)
  case None
  obtain r s' where c: "complete_exchange s (msal (token_scopes s)) = (r, s')"
    by (cases "complete_exchange s (msal (token_scopes s))")
  with complete_exchange_config[of s "msal (token_scopes s)"] have "config s' = config s" by simp
  with None c show ?thesis by (simp add: finish_getAccessToken_def)
next
  case (Some t)
  then show ?thesis by (simp add: finish_getAccessToken_def)
qed

lemma finish_getAccessToken_result:
  assumes "config s' = config s"
  shows "fst (finish_getAccessToken s' d msal) = fst (finish_getAccessToken s d msal)
       \<and> snd (snd (finish_getAccessToken s' d msal)) = snd (snd (finish_getAccessToken s d msal))"
proof (cases d)
  case None
  from assms have t: "token_scopes s' = token_scopes s" by (simp add: token_scopes_def)
  obtain r1 s1 where c1: "complete_exchange s (msal (token_scopes s)) = (r1, s1)"
    by (cases "complete_exchange s (msal (token_scopes s))")
  obtain r2 s2 where c2: "complete_exchange s' (msal (token_scopes s)) = (r2, s2)"
    by (cases "complete_exchange s' (msal (token_scopes s))")
  from complete_exchange_fst[of s' "msal (token_scopes s)" s] c1 c2 have "r2 = r1" by simp
  with None c1 c2 t show ?thesis by (simp add: finish_getAccessToken_def)
next
  case (Some t)
  then show ?thesis by (simp add: finish_getAccessToken_def)
qed

lemma send_request_config:
  assumes "config s' = config s"
  shows "send_request s' endpoint http tok = send_request s endpoint http tok"
proof -
  have b: "build_request s' token endpoint = build_request s token endpoint" for token
    using assms by (rule build_request_config)
  show ?thesis unfolding send_request_def b by (rule refl)
qed

lemma makeRequest_parts:
  "fst (makeRequest s now msal http endpoint) =
     fst (send_request s endpoint http (fst (finish_getAccessToken s (cached_token s now) msal)))
   \<and> snd (snd (makeRequest s now msal http endpoint)) =
     snd (snd (finish_getAccessToken s (cached_token s now) msal)) @
     snd (send_request s endpoint http (fst (finish_getAccessToken s (cached_token s now) msal)))"
proof -
  obtain tok s' calls where f: "finish_getAccessToken s (cached_token s now) msal = (tok, s', calls)"
    by (cases "finish_getAccessToken s (cached_token s now) msal")
  with finish_getAccessToken_config[of s "cached_token s now" msal] have "config s' = config s"
    by simp
  then have e: "send_request s' endpoint http tok = send_request s endpoint http tok"
    by (rule send_request_config)
  obtain r sent where q: "send_request s endpoint http tok = (r, sent)"
    by (cases "send_request s endpoint http tok")
  from f e q show ?thesis by (simp add: makeRequest_def getAccessToken_def)
qed

lemma makeRequest_valid_result:
  assumes "cached_token s now = Some t"
  shows "fst (makeRequest s now msal http endpoint) =
     (case http (build_request s t endpoint) of
        HttpFails e \<Rightarrow> Inl (new_Error (''PowerPlatform API request failed: '' @ error_toString e))
      | HttpResponds d \<Rightarrow> Inr d)"
  using assms
  by (simp add: makeRequest_def getAccessToken_def finish_getAccessToken_def send_request_def
      split: http_outcome.splits)

lemma getEntityRelationships_ordered:
  assumes f1: "finish_getAccessToken s d1 m1 = (tok1, sa, calls1)"
    and f2: "finish_getAccessToken sa d2 m2 = (tok2, sb, calls2)"
  shows "config sb = config s
       \<and> fst (finish_getAccessToken s d1 m1) = tok1
       \<and> snd (snd (finish_getAccessToken s d1 m1)) = calls1
       \<and> fst (finish_getAccessToken s d2 m2) = tok2
       \<and> snd (snd (finish_getAccessToken s d2 m2)) = calls2"
proof -
  from finish_getAccessToken_config[of s d1 m1] f1 have a: "config sa = config s" by simp
  from finish_getAccessToken_config[of sa d2 m2] f2 a have b: "config sb = config s" by simp
  from finish_getAccessToken_result[OF a, of d2 m2] f2
  have "fst (finish_getAccessToken s d2 m2) = tok2
       \<and> snd (snd (finish_getAccessToken s d2 m2)) = calls2" by simp
  with b f1 show ?thesis by simp
qed

lemma getEntityRelationships_parts:
  "fst (getEntityRelationships s now1 now2 msal1 msal2 http x y entityName) =
     relationships_of y
       (fst (getEntityOneToManyRelationships s now1 msal1 http entityName))
       (fst (getEntityManyToManyRelationships s now2 msal2 http entityName))
   \<and> fst (snd (snd (getEntityRelationships s now1 now2 msal1 msal2 http x y entityName))) =
       snd (snd (getEntityOneToManyRelationships s now1 msal1 http entityName))
   \<and> snd (snd (snd (getEntityRelationships s now1 now2 msal1 msal2 http x y entityName))) =
       snd (snd (getEntityManyToManyRelationships s now2 msal2 http entityName))"
proof -
  let ?p1 = "''api/data/v9.2/EntityDefinitions(LogicalName='' @ [CHR 0x27] @ entityName @
               [CHR 0x27] @ '')/OneToManyRelationships''"
  let ?p2 = "''api/data/v9.2/EntityDefinitions(LogicalName='' @ [CHR 0x27] @ entityName @
               [CHR 0x27] @ '')/ManyToManyRelationships''"
  let ?d1 = "cached_token s now1" and ?d2 = "cached_token s now2"
  let ?t1 = "fst (finish_getAccessToken s ?d1 msal1)"
  let ?t2 = "fst (finish_getAccessToken s ?d2 msal2)"
  let ?c1 = "snd (snd (finish_getAccessToken s ?d1 msal1))"
  let ?c2 = "snd (snd (finish_getAccessToken s ?d2 msal2))"
  have "\<exists>s'. config s' = config s \<and>
      getEntityRelationships s now1 now2 msal1 msal2 http x y entityName =
        (relationships_of y (fst (send_request s' ?p1 http ?t1)) (fst (send_request s' ?p2 http ?t2)),
         s', ?c1 @ snd (send_request s' ?p1 http ?t1), ?c2 @ snd (send_request s' ?p2 http ?t2))"
  proof (cases x)
    case True
    obtain tok2 sa calls2 where f2: "finish_getAccessToken s ?d2 msal2 = (tok2, sa, calls2)"
      by (cases "finish_getAccessToken s ?d2 msal2")
    obtain tok1 sb calls1 where f1: "finish_getAccessToken sa ?d1 msal1 = (tok1, sb, calls1)"
      by (cases "finish_getAccessToken sa ?d1 msal1")
    from getEntityRelationships_ordered[OF f2 f1]
    have c: "config sb = config s" and "?t2 = tok2" "?c2 = calls2" "?t1 = tok1" "?c1 = calls1"
      by simp_all
    with True f1 f2 have "getEntityRelationships s now1 now2 msal1 msal2 http x y entityName =
        (relationships_of y (fst (send_request sb ?p1 http ?t1)) (fst (send_request sb ?p2 http ?t2)),
         sb, ?c1 @ snd (send_request sb ?p1 http ?t1), ?c2 @ snd (send_request sb ?p2 http ?t2))"
      by (simp add: getEntityRelationships_def relationships_of_def Let_def split: prod.splits)
    with c show ?thesis by blast
  next
    case False
    obtain tok1 sa calls1 where f1: "finish_getAccessToken s ?d1 msal1 = (tok1, sa, calls1)"
      by (cases "finish_getAccessToken s ?d1 msal1")
    obtain tok2 sb calls2 where f2: "finish_getAccessToken sa ?d2 msal2 = (tok2, sb, calls2)"
      by (cases "finish_getAccessToken sa ?d2 msal2")
    from getEntityRelationships_ordered[OF f1 f2]
    have c: "config sb = config s" and "?t1 = tok1" "?c1 = calls1" "?t2 = tok2" "?c2 = calls2"
      by simp_all
    with False f1 f2 have "getEntityRelationships s now1 now2 msal1 msal2 http x y entityName =
        (relationships_of y (fst (send_request sb ?p1 http ?t1)) (fst (send_request sb ?p2 http ?t2)),
         sb, ?c1 @ snd (send_request sb ?p1 http ?t1), ?c2 @ snd (send_request sb ?p2 http ?t2))"
      by (simp add: getEntityRelationships_def relationships_of_def Let_def split: prod.splits)
    with c show ?thesis by blast
  qed
  then obtain s' where c: "config s' = config s" and
    g: "getEntityRelationships s now1 now2 msal1 msal2 http x y entityName =
        (relationships_of y (fst (send_request s' ?p1 http ?t1)) (fst (send_request s' ?p2 http ?t2)),
         s', ?c1 @ snd (send_request s' ?p1 http ?t1), ?c2 @ snd (send_request s' ?p2 http ?t2))"
    by blast
  have s1: "send_request s' ?p1 http ?t1 = send_request s ?p1 http ?t1"
    and s2: "send_request s' ?p2 http ?t2 = send_request s ?p2 http ?t2"
    using c by (rule send_request_config)+
  from makeRequest_parts[of s now1 msal1 http ?p1] makeRequest_parts[of s now2 msal2 http ?p2]
  show ?thesis
    unfolding g s1 s2 getEntityOneToManyRelationships_def getEntityManyToManyRelationships_def
    by simp
qed

lemma relationships_of_Inl:
  "r1 = Inl e \<or> r2 = Inl e \<Longrightarrow> \<exists>e'. relationships_of y r1 r2 = Inl e' \<and> (r1 = Inl e' \<or> r2 = Inl e')"
  by (cases r1; cases r2) (auto simp: relationships_of_def Promise_all_def)

lemma relationships_of_Inr:
  "relationships_of y r1 r2 = Inr rel \<longleftrightarrow> r1 = Inr (oneToMany rel) \<and> r2 = Inr (manyToMany rel)"
  by (cases r1; cases r2; cases rel) (auto simp: relationships_of_def Promise_all_def)

subsection \<open>Combined relationships\<close>

text \<open>
  Claim C5. For every entity name, \<open>getEntityRelationships\<close> issues both relationship
  requests, each exactly as if it were called alone on the service as it was before the
  call (neither waits for the other's outcome), whatever the order in which they settle.
  If either request fails, the call fails as a whole with the error of a failed request
  and returns no object; it succeeds only when both succeed, and then it returns exactly
  \<open>\<lparr>oneToMany, manyToMany\<rparr>\<close> holding the two responses.
\<close>

theorem getEntityRelationships_all_or_nothing:
  "fst (snd (snd (getEntityRelationships s now1 now2 msal1 msal2 http x y entityName))) =
     snd (snd (getEntityOneToManyRelationships s now1 msal1 http entityName))
   \<and> snd (snd (snd (getEntityRelationships s now1 now2 msal1 msal2 http x y entityName))) =
       snd (snd (getEntityManyToManyRelationships s now2 msal2 http entityName))
   \<and> (\<forall>e. fst (getEntityOneToManyRelationships s now1 msal1 http entityName) = Inl e
           \<or> fst (getEntityManyToManyRelationships s now2 msal2 http entityName) = Inl e \<longrightarrow>
         (\<exists>e'. fst (getEntityRelationships s now1 now2 msal1 msal2 http x y entityName) = Inl e'
            \<and> (fst (getEntityOneToManyRelationships s now1 msal1 http entityName) = Inl e'
               \<or> fst (getEntityManyToManyRelationships s now2 msal2 http entityName) = Inl e')))
   \<and> (\<forall>a b. fst (getEntityOneToManyRelationships s now1 msal1 http entityName) = Inr a
           \<and> fst (getEntityManyToManyRelationships s now2 msal2 http entityName) = Inr b \<longrightarrow>
         fst (getEntityRelationships s now1 now2 msal1 msal2 http x y entityName) =
           Inr \<lparr>oneToMany = a, manyToMany = b\<rparr>)
   \<and> (\<forall>rel. fst (getEntityRelationships s now1 now2 msal1 msal2 http x y entityName) = Inr rel \<longrightarrow>
         fst (getEntityOneToManyRelationships s now1 msal1 http entityName) = Inr (oneToMany rel)
         \<and> fst (getEntityManyToManyRelationships s now2 msal2 http entityName) =
             Inr (manyToMany rel))"
proof -
  note P = getEntityRelationships_parts[of s now1 now2 msal1 msal2 http x y entityName]
  from P have r: "fst (getEntityRelationships s now1 now2 msal1 msal2 http x y entityName) =
     relationships_of y
       (fst (getEntityOneToManyRelationships s now1 msal1 http entityName))
       (fst (getEntityManyToManyRelationships s now2 msal2 http entityName))"
    by (rule conjunct1)
  show ?thesis
  proof (intro conjI allI impI)
    from P show "fst (snd (snd (getEntityRelationships s now1 now2 msal1 msal2 http x y
        entityName))) = snd (snd (getEntityOneToManyRelationships s now1 msal1 http entityName))"
      by simp
    from P show "snd (snd (snd (getEntityRelationships s now1 now2 msal1 msal2 http x y
        entityName))) = snd (snd (getEntityManyToManyRelationships s now2 msal2 http entityName))"
      by simp
  next
    fix e
    assume "fst (getEntityOneToManyRelationships s now1 msal1 http entityName) = Inl e
           \<or> fst (getEntityManyToManyRelationships s now2 msal2 http entityName) = Inl e"
    then show "\<exists>e'. fst (getEntityRelationships s now1 now2 msal1 msal2 http x y entityName) = Inl e'
            \<and> (fst (getEntityOneToManyRelationships s now1 msal1 http entityName) = Inl e'
               \<or> fst (getEntityManyToManyRelationships s now2 msal2 http entityName) = Inl e')"
      unfolding r by (rule relationships_of_Inl)
  next
    fix a b
    assume "fst (getEntityOneToManyRelationships s now1 msal1 http entityName) = Inr a
           \<and> fst (getEntityManyToManyRelationships s now2 msal2 http entityName) = Inr b"
    then show "fst (getEntityRelationships s now1 now2 msal1 msal2 http x y entityName) =
           Inr \<lparr>oneToMany = a, manyToMany = b\<rparr>"
      unfolding r by (simp add: relationships_of_Inr)
  next
    fix rel
    assume a: "fst (getEntityRelationships s now1 now2 msal1 msal2 http x y entityName) = Inr rel"
    then show "fst (getEntityOneToManyRelationships s now1 msal1 http entityName) =
        Inr (oneToMany rel)"
      unfolding r by (simp add: relationships_of_Inr)
    from a show "fst (getEntityManyToManyRelationships s now2 msal2 http entityName) =
        Inr (manyToMany rel)"
      unfolding r by (simp add: relationships_of_Inr)
  qed
qed

theorem getEntityRelationships_all_or_nothing_witness:
  "fst (getEntityOneToManyRelationships svc_valid 2000 msal_down http_one_fails ''account'') =
     Inl (new_Error ''PowerPlatform API request failed: AxiosError: Request failed with status code 500'')
   \<and> fst (getEntityManyToManyRelationships svc_valid 2000 msal_down http_one_fails ''account'') =
       Inr ''many''
   \<and> (\<exists>e'. fst (getEntityRelationships svc_valid 2000 2000 msal_down msal_down http_one_fails
                False False ''account'') = Inl e')
   \<and> fst (getEntityOneToManyRelationships svc_valid 2000 msal_down http_ok ''account'') = Inr ''{}''
   \<and> fst (getEntityManyToManyRelationships svc_valid 2000 msal_down http_ok ''account'') = Inr ''{}''
   \<and> fst (getEntityRelationships svc_valid 2000 2000 msal_down msal_down http_ok
            False False ''account'') = Inr \<lparr>oneToMany = ''{}'', manyToMany = ''{}''\<rparr>"
proof -
  let ?e = "new_Error
    ''PowerPlatform API request failed: AxiosError: Request failed with status code 500''"
  have a: "fst (getEntityOneToManyRelationships svc_valid 2000 msal_down http_one_fails
      ''account'') = Inl ?e"
    unfolding getEntityOneToManyRelationships_def
      makeRequest_valid_result[OF cached_token_svc_valid]
    by (simp add: http_one_fails_def build_request_def url_svc_valid error_toString_def)
  have b: "fst (getEntityManyToManyRelationships svc_valid 2000 msal_down http_one_fails
      ''account'') = Inr ''many''"
    unfolding getEntityManyToManyRelationships_def
      makeRequest_valid_result[OF cached_token_svc_valid]
    by (simp add: http_one_fails_def build_request_def url_svc_valid)
  have c: "fst (getEntityOneToManyRelationships svc_valid 2000 msal_down http_ok ''account'') =
      Inr ''{}''"
    unfolding getEntityOneToManyRelationships_def
      makeRequest_valid_result[OF cached_token_svc_valid]
    by (simp add: http_ok_def)
  have d: "fst (getEntityManyToManyRelationships svc_valid 2000 msal_down http_ok ''account'') =
      Inr ''{}''"
    unfolding getEntityManyToManyRelationships_def
      makeRequest_valid_result[OF cached_token_svc_valid]
    by (simp add: http_ok_def)
  note T1 = getEntityRelationships_all_or_nothing
    [of svc_valid 2000 2000 msal_down msal_down http_one_fails False False "''account''"]
  note T2 = getEntityRelationships_all_or_nothing
    [of svc_valid 2000 2000 msal_down msal_down http_ok False False "''account''"]
  from T1[THEN conjunct2, THEN conjunct2, THEN conjunct1, THEN spec, of ?e, THEN mp,
      OF disjI1, OF a]
  have f: "\<exists>e'. fst (getEntityRelationships svc_valid 2000 2000 msal_down msal_down
      http_one_fails False False ''account'') = Inl e'"
    by blast
  from T2[THEN conjunct2, THEN conjunct2, THEN conjunct2, THEN conjunct1, THEN spec,
      THEN spec, THEN mp, OF conjI, OF c d]
  have g: "fst (getEntityRelationships svc_valid 2000 2000 msal_down msal_down http_ok
            False False ''account'') = Inr \<lparr>oneToMany = ''{}'', manyToMany = ''{}''\<rparr>" .
  from a b f c d g show ?thesis by (intro conjI)
qed

end
